theory Spec2Isabelle
  imports Main "HOL-Library.AList"
begin

section \<open>Data model of the signalling server\<close>

text \<open>
  The server keeps its session state in process-wide maps (\<^verbatim>\<open>producerInfo\<close>,
  \<^verbatim>\<open>consumerInfo\<close>, \<^verbatim>\<open>hlsActiveRooms\<close> in the socket server, \<^verbatim>\<open>hlsSessions\<close> in
  \<^verbatim>\<open>hls.ts\<close>, \<^verbatim>\<open>injectSessions\<close> in \<^verbatim>\<open>injectFile.ts\<close>) and the durable room record in
  a key-value store.  Media objects (producers, consumers, transports, routers,
  subprocesses) live in the media engine and the operating system; the model keeps
  their handles and records every call made on them, in order, in an effect trace.
\<close>

datatype kind = Audio | Video

record Producer =
  producer_id :: string
  producer_kind :: kind
  producer_appData_username :: string

record Consumer =
  consumer_id :: string
  consumer_kind :: kind
  consumer_rtpParameters :: string

record WebRtcTransport =
  transport_id :: string
  transport_params :: string

record Router =
  router_id :: string
  rtpCapabilities :: string

text \<open>
  \<^verbatim>\<open>PeerProducerInfo\<close> and \<^verbatim>\<open>PeerConsumerInfo\<close>.  The transport field is \<^verbatim>\<open>null\<close> from the join
  until \<^verbatim>\<open>createWebRTCTransport\<close>; a JavaScript \<^verbatim>\<open>Map\<close> iterates in insertion order and
  \<^verbatim>\<open>set\<close> on a present key keeps its position, which is \<^const>\<open>AList.update\<close>.
\<close>

record PeerProducerInfo =
  producerTransport :: "WebRtcTransport option"
  producers :: "(kind \<times> Producer) list"

record PeerConsumerInfo =
  consumerTransport :: "WebRtcTransport option"
  consumers :: "(string \<times> Consumer) list"

record PlainTransport =
  plain_id :: string
  plain_localPort :: nat

text \<open>\<^verbatim>\<open>HlsSession\<close> of \<^verbatim>\<open>hls.ts\<close>; a subprocess handle is a number.\<close>

record HlsSession =
  hls_ffmpeg :: "nat option"
  hls_plainTransport :: "PlainTransport option"
  hls_consumer :: "Consumer option"

text \<open>\<^verbatim>\<open>InjectSession\<close> of \<^verbatim>\<open>injectFile.ts\<close>.\<close>

record InjectSession =
  inj_ffmpeg :: "nat option"
  inj_audioTransport :: "PlainTransport option"
  inj_videoTransport :: "PlainTransport option"
  inj_audioProducer :: "Producer option"
  inj_videoProducer :: "Producer option"

record RoomData =
  peers :: "string list"

datatype response =
    RError string
  | RJoined string "(string \<times> string) list option"
  | RTransports WebRtcTransport WebRtcTransport
  | RProduced string
  | RConsumed string string kind string

datatype notification =
    NewProducer string string
  | PeerLeft string
  | MeetingEnded
  | ConsumerClosed string

text \<open>
  One event per call that leaves the process: on a media handle, on the file system,
  on a subprocess, on the signalling channel.  \<open>Ack sid r\<close> is the acknowledgement
  callback of the request being handled on socket \<open>sid\<close>; \<open>Unhandled\<close> is the rejection
  of a handler that has no \<^verbatim>\<open>try\<close> around the failing call.
\<close>

datatype event =
    ProducerClose string
  | ConsumerClose string
  | TransportClose string
  | RouterClose string
  | TransportConnect string string
  | CallCreateWebRtcTransport string
  | CallProduce string kind
  | CallConsume string string bool
  | ConsumerResume string
  | CallCreatePlainTransport string
  | Mkdir string
  | WriteFile string
  | Unlink string
  | Spawn nat string
  | Kill nat
  | SocketJoin string string
  | Ack string response
  | EmitRoom string notification
  | EmitRoomExcept string string notification
  | EmitSocket string notification
  | Unhandled string

record server_state =
  producerInfo :: "string \<rightharpoonup> PeerProducerInfo"
  consumerInfo :: "string \<rightharpoonup> PeerConsumerInfo"
  hlsActiveRooms :: "string set"
  hlsSessions :: "string \<rightharpoonup> HlsSession"
  injectSessions :: "string \<rightharpoonup> InjectSession"
  redis :: "string \<rightharpoonup> RoomData"
  trace :: "event list"

text \<open>\<^verbatim>\<open>CustomSocket\<close>: the two fields the handlers read are unset until a join.\<close>

record socket =
  socket_id :: string
  sock_username :: "string option"
  sock_roomId :: "string option"

definition emit :: "event list \<Rightarrow> server_state \<Rightarrow> server_state" where
  "emit es s = s\<lparr>trace := trace s @ es\<rparr>"

definition peerKey :: "string \<Rightarrow> string \<Rightarrow> string" where
  "peerKey r u = r @ '':'' @ u"

definition roomKey :: "string \<Rightarrow> string" where
  "roomKey r = ''room:'' @ r"

text \<open>
  JavaScript truthiness of an optional string: \<^verbatim>\<open>undefined\<close> and the empty string are
  falsy.  \<open>identity\<close> is the guard \<^verbatim>\<open>if (!socket.roomId || !socket.username) return;\<close>.
\<close>

definition truthy :: "string option \<Rightarrow> bool" where
  "truthy x = (case x of None \<Rightarrow> False | Some v \<Rightarrow> v \<noteq> [])"

definition identity :: "socket \<Rightarrow> (string \<times> string) option" where
  "identity sock =
     (if \<not> truthy (sock_roomId sock) \<or> \<not> truthy (sock_username sock) then None
      else Some (the (sock_roomId sock), the (sock_username sock)))"

section \<open>Peer teardown\<close>

text \<open>
  \<^verbatim>\<open>cleanupPeer\<close>: close every producer, then the producer transport if there is one,
  forget the record; the same for the consumers.  The \<^verbatim>\<open>@close\<close> listener that
  \<^verbatim>\<open>transport-produce\<close> attaches to a producer deletes that producer's kind from the very
  record that is forgotten here, so it leaves nothing to see.
\<close>

definition transportCloseEvents :: "WebRtcTransport option \<Rightarrow> event list" where
  "transportCloseEvents t = (case t of None \<Rightarrow> [] | Some tr \<Rightarrow> [TransportClose (transport_id tr)])"

definition cleanupProducers :: "string \<Rightarrow> server_state \<Rightarrow> server_state" where
  "cleanupProducers k s =
     (case producerInfo s k of
        None \<Rightarrow> s
      | Some info \<Rightarrow>
          (emit (map (\<lambda>(_, p). ProducerClose (producer_id p)) (producers info)
                 @ transportCloseEvents (producerTransport info)) s)
            \<lparr>producerInfo := (producerInfo s)(k := None)\<rparr>)"

definition cleanupConsumers :: "string \<Rightarrow> server_state \<Rightarrow> server_state" where
  "cleanupConsumers k s =
     (case consumerInfo s k of
        None \<Rightarrow> s
      | Some info \<Rightarrow>
          (emit (map (\<lambda>(_, c). ConsumerClose (consumer_id c)) (consumers info)
                 @ transportCloseEvents (consumerTransport info)) s)
            \<lparr>consumerInfo := (consumerInfo s)(k := None)\<rparr>)"

definition cleanupPeer :: "string \<Rightarrow> string \<Rightarrow> server_state \<Rightarrow> server_state" where
  "cleanupPeer r u s = cleanupConsumers (peerKey r u) (cleanupProducers (peerKey r u) s)"

text \<open>\<^verbatim>\<open>socket.on('hangup')\<close>.\<close>

definition hangup :: "socket \<Rightarrow> server_state \<Rightarrow> server_state" where
  "hangup sock s =
     (case identity sock of
        None \<Rightarrow> s
      | Some (r, u) \<Rightarrow> emit [EmitRoom r (PeerLeft u)] (cleanupPeer r u s))"

section \<open>Replies of the environment\<close>

text \<open>
  Every awaited call into the media engine, into \<^verbatim>\<open>getRouter\<close> (module
  \<^verbatim>\<open>mediasoup/mediasoup.config\<close>, which the handlers import) or into the operating
  system is answered by the environment.  A handler takes the answers of the calls it
  makes as an argument: \<open>Inl msg\<close> is a rejection with that message, \<open>Inr v\<close> the
  value.  The key-value store is taken to answer every call; the file system calls and
  \<^verbatim>\<open>spawn\<close> are taken to return (a failed spawn arrives later, as the subprocess's
  \<^verbatim>\<open>error\<close> event).  Close calls on media handles return nothing and do not throw.
\<close>

definition ack :: "string \<Rightarrow> response \<Rightarrow> server_state \<Rightarrow> server_state" where
  "ack sid r s = emit [Ack sid r] s"

definition typeError :: string where
  "typeError = ''Cannot read properties of undefined''"

section \<open>Joining a room\<close>

record JoinRoomPayload =
  jp_username :: string
  jp_roomId :: string
  jp_isCreator :: bool

definition emptyProducerInfo :: PeerProducerInfo where
  "emptyProducerInfo = \<lparr>producerTransport = None, producers = []\<rparr>"

definition emptyConsumerInfo :: PeerConsumerInfo where
  "emptyConsumerInfo = \<lparr>consumerTransport = None, consumers = []\<rparr>"

text \<open>
  The loop over \<^verbatim>\<open>roomData.peers\<close> of a non-creator join: the producers of every
  listed peer that has a record, as (producer id, \<^verbatim>\<open>appData.username\<close>).
\<close>

definition existingProducers :: "server_state \<Rightarrow> string \<Rightarrow> string list \<Rightarrow> (string \<times> string) list" where
  "existingProducers s r ps =
     concat (map (\<lambda>other.
        case producerInfo s (peerKey r other) of
          None \<Rightarrow> []
        | Some info \<Rightarrow> map (\<lambda>(_, p). (producer_id p, producer_appData_username p)) (producers info)) ps)"

text \<open>
  \<^verbatim>\<open>socket.on('joinRoom')\<close>.  The socket fields and the two peer records are written
  first; the existence check and the two early returns come after.
\<close>

definition joinRoom ::
  "socket \<Rightarrow> JoinRoomPayload \<Rightarrow> (string + Router) \<Rightarrow> server_state \<Rightarrow> socket \<times> server_state" where
  "joinRoom sock p rtr s =
     (let u = jp_username p; r = jp_roomId p; sid = socket_id sock;
          sock' = sock\<lparr>sock_username := Some u, sock_roomId := Some r\<rparr>;
          k = peerKey r u;
          s1 = (emit [SocketJoin sid r] s)
                 \<lparr>producerInfo := (producerInfo s)(k \<mapsto> emptyProducerInfo),
                  consumerInfo := (consumerInfo s)(k \<mapsto> emptyConsumerInfo)\<rparr>;
          roomExists = (redis s1 (roomKey r) \<noteq> None)
      in (sock',
          if jp_isCreator p then
            (if roomExists then ack sid (RError ''Room already exists.'') s1
             else (case rtr of
                     Inl msg \<Rightarrow> ack sid (RError msg) s1
                   | Inr router \<Rightarrow>
                       ack sid (RJoined (rtpCapabilities router) None)
                         (s1\<lparr>redis := (redis s1)(roomKey r \<mapsto> \<lparr>peers = [u]\<rparr>)\<rparr>)))
          else
            (if \<not> roomExists then ack sid (RError ''Room not found.'') s1
             else (case rtr of
                     Inl msg \<Rightarrow> ack sid (RError msg) s1
                   | Inr router \<Rightarrow>
                       (let roomData = the (redis s1 (roomKey r));
                            existing = existingProducers s1 r (peers roomData)
                        in ack sid (RJoined (rtpCapabilities router) (Some existing))
                             (s1\<lparr>redis := (redis s1)(roomKey r \<mapsto>
                                    roomData\<lparr>peers := peers roomData @ [u]\<rparr>)\<rparr>))))))"

section \<open>Transports\<close>

record transports_ext =
  xt_getRouter :: "string + Router"
  xt_producerTransport :: "string + WebRtcTransport"
  xt_consumerTransport :: "string + WebRtcTransport"

text \<open>
  \<^verbatim>\<open>socket.on('createWebRTCTransport')\<close>.  The two assignments go through
  \<^verbatim>\<open>producerInfo.get(peerKey)!\<close> and \<^verbatim>\<open>consumerInfo.get(peerKey)!\<close>: on a missing record
  the assignment throws a \<^verbatim>\<open>TypeError\<close>, which the handler's \<^verbatim>\<open>catch\<close> acknowledges.
\<close>

definition createWebRTCTransport :: "socket \<Rightarrow> transports_ext \<Rightarrow> server_state \<Rightarrow> server_state" where
  "createWebRTCTransport sock ext s =
     (case identity sock of
        None \<Rightarrow> s
      | Some (r, u) \<Rightarrow>
          (let sid = socket_id sock; k = peerKey r u in
           case xt_getRouter ext of
             Inl msg \<Rightarrow> ack sid (RError msg) s
           | Inr router \<Rightarrow>
               (let s1 = emit [CallCreateWebRtcTransport (router_id router)] s in
                case xt_producerTransport ext of
                  Inl msg \<Rightarrow> ack sid (RError msg) s1
                | Inr pt \<Rightarrow>
                    (let s2 = emit [CallCreateWebRtcTransport (router_id router)] s1 in
                     case xt_consumerTransport ext of
                       Inl msg \<Rightarrow> ack sid (RError msg) s2
                     | Inr ct \<Rightarrow>
                         (case producerInfo s2 k of
                            None \<Rightarrow> ack sid (RError typeError) s2
                          | Some pinfo \<Rightarrow>
                              (let s3 = s2\<lparr>producerInfo := (producerInfo s2)
                                             (k \<mapsto> pinfo\<lparr>producerTransport := Some pt\<rparr>)\<rparr> in
                               case consumerInfo s3 k of
                                 None \<Rightarrow> ack sid (RError typeError) s3
                               | Some cinfo \<Rightarrow>
                                   ack sid (RTransports pt ct)
                                     (s3\<lparr>consumerInfo := (consumerInfo s3)
                                           (k \<mapsto> cinfo\<lparr>consumerTransport := Some ct\<rparr>)\<rparr>)))))))"

text \<open>
  \<^verbatim>\<open>socket.on('transport-connect')\<close> and \<^verbatim>\<open>socket.on('transport-recv-connect')\<close>: no
  acknowledgement and no \<^verbatim>\<open>try\<close>.  The record is read with \<^verbatim>\<open>?.\<close>, its transport
  is not, so a record whose transport is still \<^verbatim>\<open>null\<close> makes the handler reject.
\<close>

definition connectTransport :: "WebRtcTransport option \<Rightarrow> string \<Rightarrow> string option \<Rightarrow> server_state \<Rightarrow> server_state" where
  "connectTransport t dtls reply s =
     (case t of
        None \<Rightarrow> emit [Unhandled typeError] s
      | Some tr \<Rightarrow>
          (case reply of
             None \<Rightarrow> emit [TransportConnect (transport_id tr) dtls] s
           | Some msg \<Rightarrow> emit [TransportConnect (transport_id tr) dtls, Unhandled msg] s))"

definition transport_connect :: "socket \<Rightarrow> string \<Rightarrow> string option \<Rightarrow> server_state \<Rightarrow> server_state" where
  "transport_connect sock dtls reply s =
     (case identity sock of
        None \<Rightarrow> s
      | Some (r, u) \<Rightarrow>
          (case producerInfo s (peerKey r u) of
             None \<Rightarrow> s
           | Some info \<Rightarrow> connectTransport (producerTransport info) dtls reply s))"

definition transport_recv_connect :: "socket \<Rightarrow> string \<Rightarrow> string option \<Rightarrow> server_state \<Rightarrow> server_state" where
  "transport_recv_connect sock dtls reply s =
     (case identity sock of
        None \<Rightarrow> s
      | Some (r, u) \<Rightarrow>
          (case consumerInfo s (peerKey r u) of
             None \<Rightarrow> s
           | Some info \<Rightarrow> connectTransport (consumerTransport info) dtls reply s))"

section \<open>The playback pipeline (hls.ts)\<close>

record hls_ext =
  xh_plainTransport :: "string + PlainTransport"
  xh_consumer :: "string + Consumer"
  xh_ffmpeg :: nat
  xh_resume :: "string option"

text \<open>
  Releasing a session record: \<^verbatim>\<open>ffmpeg?.kill('SIGKILL')\<close>, \<^verbatim>\<open>consumer?.close()\<close>,
  \<^verbatim>\<open>plainTransport?.close()\<close>, each inside its own \<^verbatim>\<open>try\<close>.  \<^verbatim>\<open>startHlsRecording\<close>
  awaits each close of a previous session before it goes on, so there the three calls
  come one after the other (\<open>releaseHlsSession\<close>).
\<close>

definition stopIssued :: "HlsSession \<Rightarrow> event list" where
  "stopIssued sess =
     (case hls_ffmpeg sess of None \<Rightarrow> [] | Some f \<Rightarrow> [Kill f])
     @ (case hls_consumer sess of None \<Rightarrow> [] | Some c \<Rightarrow> [ConsumerClose (consumer_id c)])"

definition stopPending :: "HlsSession \<Rightarrow> event list" where
  "stopPending sess =
     (case hls_plainTransport sess of None \<Rightarrow> [] | Some t \<Rightarrow> [TransportClose (plain_id t)])"

definition releaseHlsSession :: "HlsSession \<Rightarrow> event list" where
  "releaseHlsSession sess = stopIssued sess @ stopPending sess"

text \<open>
  \<^verbatim>\<open>stopHlsRecording\<close> kills the subprocess, then starts an \<^verbatim>\<open>async\<close> block that it does
  not await, deletes the session record and returns.  The block calls
  \<^verbatim>\<open>consumer?.close()\<close> at once and suspends at its first \<^verbatim>\<open>await\<close>; its
  \<^verbatim>\<open>plainTransport?.close()\<close> runs only when the calling handler has finished its
  remaining synchronous statements.  The first component of the result is that pending
  call, which the caller's model issues at the point where the handler yields.
\<close>

definition stopHlsRecording :: "string \<Rightarrow> server_state \<Rightarrow> event list \<times> server_state" where
  "stopHlsRecording r s =
     (case hlsSessions s r of
        None \<Rightarrow> ([], s)
      | Some sess \<Rightarrow>
          (stopPending sess,
           (emit (stopIssued sess) s)\<lparr>hlsSessions := (hlsSessions s)(r := None)\<rparr>))"

text \<open>
  \<^verbatim>\<open>startHlsRecording\<close>, cut at the calls into the media engine that it awaits
  (\<^verbatim>\<open>router.createPlainTransport\<close>, \<^verbatim>\<open>plainTransport.consume\<close>, \<^verbatim>\<open>consumer.resume\<close>).
  \<open>hlsBegin\<close> is the code before the first of them, \<open>hlsConsume\<close> the code between
  the first and the second, \<open>hlsSpawn\<close> the code between the second and the third
  (output directory, session description file, \<^verbatim>\<open>spawn('ffmpeg', ...)\<close>, then the call
  of \<^verbatim>\<open>consumer.resume()\<close>), \<open>hlsStore\<close> the final \<^verbatim>\<open>hlsSessions.set\<close>.  The text of
  the session description is not modelled.
\<close>

definition hlsBegin :: "string \<Rightarrow> Router \<Rightarrow> server_state \<Rightarrow> server_state" where
  "hlsBegin r router s =
     emit [CallCreatePlainTransport (router_id router)]
       (case hlsSessions s r of
          None \<Rightarrow> s
        | Some prev \<Rightarrow> (emit (releaseHlsSession prev) s)\<lparr>hlsSessions := (hlsSessions s)(r := None)\<rparr>)"

definition hlsConsume :: "Producer \<Rightarrow> PlainTransport \<Rightarrow> server_state \<Rightarrow> server_state" where
  "hlsConsume producer pt s = emit [CallConsume (plain_id pt) (producer_id producer) True] s"

definition hlsSpawn :: "string \<Rightarrow> nat \<Rightarrow> Consumer \<Rightarrow> server_state \<Rightarrow> server_state" where
  "hlsSpawn r f c s = emit [Mkdir r, WriteFile r, Spawn f r, ConsumerResume (consumer_id c)] s"

definition hlsStore :: "string \<Rightarrow> nat \<Rightarrow> PlainTransport \<Rightarrow> Consumer \<Rightarrow> server_state \<Rightarrow> server_state" where
  "hlsStore r f pt c s =
     s\<lparr>hlsSessions := (hlsSessions s)(r \<mapsto>
          \<lparr>hls_ffmpeg = Some f, hls_plainTransport = Some pt, hls_consumer = Some c\<rparr>)\<rparr>"

text \<open>The whole function: \<open>Some msg\<close> in the first component is the error it throws.\<close>

definition startHlsRecording ::
  "string \<Rightarrow> Producer \<Rightarrow> Router \<Rightarrow> hls_ext \<Rightarrow> server_state \<Rightarrow> string option \<times> server_state" where
  "startHlsRecording r producer router ext s =
     (let s1 = hlsBegin r router s in
      case xh_plainTransport ext of
        Inl msg \<Rightarrow> (Some msg, s1)
      | Inr pt \<Rightarrow>
          (let s2 = hlsConsume producer pt s1 in
           case xh_consumer ext of
             Inl msg \<Rightarrow> (Some msg, s2)
           | Inr c \<Rightarrow>
               (let s3 = hlsSpawn r (xh_ffmpeg ext) c s2 in
                case xh_resume ext of
                  Some msg \<Rightarrow> (Some msg, s3)
                | None \<Rightarrow> (None, hlsStore r (xh_ffmpeg ext) pt c s3))))"

section \<open>Producing\<close>

record TransportProducePayload =
  tp_kind :: kind
  tp_rtpParameters :: string
  tp_appData_username :: string

record produce_ext =
  xp_produce :: "string + string"
  xp_getRouter :: "string + Router"
  xp_hls :: hls_ext

text \<open>
  The producer that \<^verbatim>\<open>transport.produce({kind, rtpParameters, appData})\<close> resolves to:
  the engine chooses the id, kind and application data are the ones passed in.
\<close>

definition newProducer :: "TransportProducePayload \<Rightarrow> string \<Rightarrow> Producer" where
  "newProducer p pid =
     \<lparr>producer_id = pid, producer_kind = tp_kind p,
      producer_appData_username = tp_appData_username p\<rparr>"

text \<open>
  The tail of the handler: the \<^verbatim>\<open>new-producer\<close> broadcast to the rest of the room and
  the acknowledgement.
\<close>

definition produceDone :: "string \<Rightarrow> string \<Rightarrow> string \<Rightarrow> Producer \<Rightarrow> server_state \<Rightarrow> server_state" where
  "produceDone sid r u producer s =
     emit [EmitRoomExcept sid r (NewProducer u (producer_id producer)),
           Ack sid (RProduced (producer_id producer))] s"

definition flagHlsActive :: "string \<Rightarrow> server_state \<Rightarrow> server_state" where
  "flagHlsActive r s = s\<lparr>hlsActiveRooms := insert r (hlsActiveRooms s)\<rparr>"

text \<open>
  \<^verbatim>\<open>socket.on('transport-produce')\<close>, run from its first line to its last with no other
  handler in between.  The inner \<^verbatim>\<open>try\<close> swallows a failure of \<^verbatim>\<open>getRouter\<close> or of
  \<^verbatim>\<open>startHlsRecording\<close>; the room is flagged only after \<^verbatim>\<open>startHlsRecording\<close> has
  returned.
\<close>

definition transport_produce ::
  "socket \<Rightarrow> TransportProducePayload \<Rightarrow> produce_ext \<Rightarrow> server_state \<Rightarrow> server_state" where
  "transport_produce sock p ext s =
     (case identity sock of
        None \<Rightarrow> s
      | Some (r, u) \<Rightarrow>
          (let sid = socket_id sock; k = peerKey r u in
           case (case producerInfo s k of None \<Rightarrow> None | Some info \<Rightarrow> producerTransport info) of
             None \<Rightarrow> ack sid (RError ''Producer transport not found'') s
           | Some transport \<Rightarrow>
               (let s1 = emit [CallProduce (transport_id transport) (tp_kind p)] s in
                case xp_produce ext of
                  Inl msg \<Rightarrow> ack sid (RError msg) s1
                | Inr pid \<Rightarrow>
                    (let producer = newProducer p pid in
                     case producerInfo s1 k of
                       None \<Rightarrow> ack sid (RError typeError) s1
                     | Some info \<Rightarrow>
                         (let s2 = s1\<lparr>producerInfo := (producerInfo s1)
                                        (k \<mapsto> info\<lparr>producers :=
                                           AList.update (tp_kind p) producer (producers info)\<rparr>)\<rparr>;
                              s3 = (if producer_kind producer = Video then
                                      (if r \<notin> hlsActiveRooms s2 then
                                         (case xp_getRouter ext of
                                            Inl msg \<Rightarrow> s2
                                          | Inr router \<Rightarrow>
                                              (case startHlsRecording r producer router (xp_hls ext) s2 of
                                                 (Some msg, s') \<Rightarrow> s'
                                               | (None, s') \<Rightarrow> flagHlsActive r s'))
                                       else s2)
                                    else s2)
                          in produceDone sid r u producer s3)))))"

text \<open>
  The same handler as the event loop runs it.  The handler gives up the thread at each
  awaited call into the media engine (\<^verbatim>\<open>transport.produce\<close> and, inside
  \<^verbatim>\<open>startHlsRecording\<close>, \<^verbatim>\<open>router.createPlainTransport\<close>, \<^verbatim>\<open>plainTransport.consume\<close>,
  \<^verbatim>\<open>consumer.resume\<close>), and any other handler may run before the answer resumes it.
  The awaits of \<^verbatim>\<open>getRouter\<close> and of the results of \<^verbatim>\<open>close()\<close> stay inside a step.  A
  \<open>produce_task\<close> is a suspended run: the point it waits at and the local variables
  it holds (\<open>ctx\<close> is the socket id, the room and the username read at the start).
  \<open>produceStart\<close> runs the handler up to its first such call and \<open>produceResume\<close>
  runs a suspended handler, given the answers, up to the next one; \<open>None\<close> means the
  handler has returned.
\<close>

record produce_ctx =
  ctx_sid :: string
  ctx_room :: string
  ctx_user :: string

datatype produce_task =
    AwaitProduce produce_ctx TransportProducePayload
  | AwaitPlainTransport produce_ctx Producer
  | AwaitConsume produce_ctx Producer PlainTransport
  | AwaitResume produce_ctx Producer PlainTransport Consumer

definition produceStart ::
  "socket \<Rightarrow> TransportProducePayload \<Rightarrow> server_state \<Rightarrow> produce_task option \<times> server_state" where
  "produceStart sock p s =
     (case identity sock of
        None \<Rightarrow> (None, s)
      | Some (r, u) \<Rightarrow>
          (let sid = socket_id sock; k = peerKey r u in
           case (case producerInfo s k of None \<Rightarrow> None | Some info \<Rightarrow> producerTransport info) of
             None \<Rightarrow> (None, ack sid (RError ''Producer transport not found'') s)
           | Some transport \<Rightarrow>
               (Some (AwaitProduce \<lparr>ctx_sid = sid, ctx_room = r, ctx_user = u\<rparr> p),
                emit [CallProduce (transport_id transport) (tp_kind p)] s)))"

fun produceResume ::
  "produce_ext \<Rightarrow> produce_task \<Rightarrow> server_state \<Rightarrow> produce_task option \<times> server_state" where
  "produceResume ext (AwaitProduce c p) s =
     (let sid = ctx_sid c; r = ctx_room c; u = ctx_user c; k = peerKey r u in
      case xp_produce ext of
        Inl msg \<Rightarrow> (None, ack sid (RError msg) s)
      | Inr pid \<Rightarrow>
          (let producer = newProducer p pid in
           case producerInfo s k of
             None \<Rightarrow> (None, ack sid (RError typeError) s)
           | Some info \<Rightarrow>
               (let s2 = s\<lparr>producerInfo := (producerInfo s)
                              (k \<mapsto> info\<lparr>producers :=
                                 AList.update (tp_kind p) producer (producers info)\<rparr>)\<rparr>
                in if producer_kind producer = Video then
                     (if r \<notin> hlsActiveRooms s2 then
                        (case xp_getRouter ext of
                           Inl msg \<Rightarrow> (None, produceDone sid r u producer s2)
                         | Inr router \<Rightarrow> (Some (AwaitPlainTransport c producer), hlsBegin r router s2))
                      else (None, produceDone sid r u producer s2))
                   else (None, produceDone sid r u producer s2))))"
| "produceResume ext (AwaitPlainTransport c producer) s =
     (case xh_plainTransport (xp_hls ext) of
        Inl msg \<Rightarrow> (None, produceDone (ctx_sid c) (ctx_room c) (ctx_user c) producer s)
      | Inr pt \<Rightarrow> (Some (AwaitConsume c producer pt), hlsConsume producer pt s))"
| "produceResume ext (AwaitConsume c producer pt) s =
     (case xh_consumer (xp_hls ext) of
        Inl msg \<Rightarrow> (None, produceDone (ctx_sid c) (ctx_room c) (ctx_user c) producer s)
      | Inr cns \<Rightarrow> (Some (AwaitResume c producer pt cns),
                    hlsSpawn (ctx_room c) (xh_ffmpeg (xp_hls ext)) cns s))"
| "produceResume ext (AwaitResume c producer pt cns) s =
     (case xh_resume (xp_hls ext) of
        Some msg \<Rightarrow> (None, produceDone (ctx_sid c) (ctx_room c) (ctx_user c) producer s)
      | None \<Rightarrow>
          (None, produceDone (ctx_sid c) (ctx_room c) (ctx_user c) producer
                   (flagHlsActive (ctx_room c)
                      (hlsStore (ctx_room c) (xh_ffmpeg (xp_hls ext)) pt cns s))))"

text \<open>Resume a run if it is suspended; a run that has returned stays as it is.\<close>

definition produceNext ::
  "produce_ext \<Rightarrow> produce_task option \<times> server_state \<Rightarrow> produce_task option \<times> server_state" where
  "produceNext ext ts = (case fst ts of None \<Rightarrow> ts | Some t \<Rightarrow> produceResume ext t (snd ts))"

text \<open>
  Two runs of the handler on one server: \<open>Left\<close> and \<open>Right\<close> name which of the two
  is resumed next, and \<open>interleave\<close> follows a schedule.
\<close>

datatype turn = Left | Right

record two_runs =
  left_run :: "produce_task option"
  right_run :: "produce_task option"
  shared :: server_state

definition turnStep :: "produce_ext \<Rightarrow> produce_ext \<Rightarrow> turn \<Rightarrow> two_runs \<Rightarrow> two_runs" where
  "turnStep extL extR t w =
     (case t of
        Left \<Rightarrow> (case produceNext extL (left_run w, shared w) of
                   (t', s') \<Rightarrow> w\<lparr>left_run := t', shared := s'\<rparr>)
      | Right \<Rightarrow> (case produceNext extR (right_run w, shared w) of
                    (t', s') \<Rightarrow> w\<lparr>right_run := t', shared := s'\<rparr>))"

definition interleave :: "produce_ext \<Rightarrow> produce_ext \<Rightarrow> turn list \<Rightarrow> two_runs \<Rightarrow> two_runs" where
  "interleave extL extR sched w = foldl (\<lambda>w t. turnStep extL extR t w) w sched"

section \<open>Consuming\<close>

record ConsumePayload =
  cp_rtpCapabilities :: string
  cp_remoteProducerId :: string
  cp_remoteUsername :: string

text \<open>
  \<open>xc_canConsume\<close> is the answer of \<^verbatim>\<open>router.canConsume({producerId, rtpCapabilities})\<close>:
  the media engine answers \<^verbatim>\<open>false\<close> when the router has no producer with that id and
  when the capabilities do not fit the producer, and it does not throw.
\<close>

record consume_ext =
  xc_getRouter :: "string + Router"
  xc_canConsume :: bool
  xc_consume :: "string + Consumer"

text \<open>\<^verbatim>\<open>socket.on('consume')\<close>.  The \<^verbatim>\<open>if (router.canConsume(...))\<close> has no \<^verbatim>\<open>else\<close>.\<close>

definition consume :: "socket \<Rightarrow> ConsumePayload \<Rightarrow> consume_ext \<Rightarrow> server_state \<Rightarrow> server_state" where
  "consume sock p ext s =
     (case identity sock of
        None \<Rightarrow> s
      | Some (r, u) \<Rightarrow>
          (let sid = socket_id sock; k = peerKey r u in
           case xc_getRouter ext of
             Inl msg \<Rightarrow> ack sid (RError msg) s
           | Inr router \<Rightarrow>
               (case (case consumerInfo s k of None \<Rightarrow> None | Some info \<Rightarrow> consumerTransport info) of
                  None \<Rightarrow> ack sid (RError ''Consumer transport not found.'') s
                | Some transport \<Rightarrow>
                    (if xc_canConsume ext then
                       (let s1 = emit [CallConsume (transport_id transport) (cp_remoteProducerId p) True] s in
                        case xc_consume ext of
                          Inl msg \<Rightarrow> ack sid (RError msg) s1
                        | Inr c \<Rightarrow>
                            (case consumerInfo s1 k of
                               None \<Rightarrow> ack sid (RError typeError) s1
                             | Some info \<Rightarrow>
                                 ack sid (RConsumed (consumer_id c) (cp_remoteProducerId p)
                                            (consumer_kind c) (consumer_rtpParameters c))
                                   (s1\<lparr>consumerInfo := (consumerInfo s1)
                                         (k \<mapsto> info\<lparr>consumers :=
                                            AList.update (consumer_id c) c (consumers info)\<rparr>)\<rparr>)))
                     else s))))"

text \<open>\<^verbatim>\<open>socket.on('consumer-resume')\<close>: no acknowledgement and no \<^verbatim>\<open>try\<close>.\<close>

definition consumer_resume :: "socket \<Rightarrow> string \<Rightarrow> string option \<Rightarrow> server_state \<Rightarrow> server_state" where
  "consumer_resume sock consumerId reply s =
     (case identity sock of
        None \<Rightarrow> s
      | Some (r, u) \<Rightarrow>
          (case (case consumerInfo s (peerKey r u) of
                   None \<Rightarrow> None
                 | Some info \<Rightarrow> map_of (consumers info) consumerId) of
             None \<Rightarrow> s
           | Some c \<Rightarrow>
               (case reply of
                  None \<Rightarrow> emit [ConsumerResume (consumer_id c)] s
                | Some msg \<Rightarrow> emit [ConsumerResume (consumer_id c), Unhandled msg] s)))"

section \<open>Ending a meeting, losing a connection\<close>

text \<open>
  What both handlers do once the room record is deleted: \<^verbatim>\<open>getRouter\<close>,
  \<^verbatim>\<open>router.close()\<close>, \<^verbatim>\<open>stopHlsRecording\<close>, \<^verbatim>\<open>hlsActiveRooms.delete\<close>.  Neither handler
  has a \<^verbatim>\<open>try\<close>, so a rejected \<^verbatim>\<open>getRouter\<close> ends the handler there.  The relay
  transport close that \<^verbatim>\<open>stopHlsRecording\<close> leaves pending is issued after the last
  synchronous statement of the handler: in \<^verbatim>\<open>end-meeting\<close> after the
  \<^verbatim>\<open>meeting-ended\<close> broadcast.
\<close>

definition deleteRoom :: "string \<Rightarrow> server_state \<Rightarrow> server_state" where
  "deleteRoom r s = s\<lparr>redis := (redis s)(roomKey r := None)\<rparr>"

definition unflagHls :: "string \<Rightarrow> server_state \<Rightarrow> server_state" where
  "unflagHls r s = s\<lparr>hlsActiveRooms := hlsActiveRooms s - {r}\<rparr>"

text \<open>\<^verbatim>\<open>socket.on('end-meeting')\<close>: the guard reads \<^verbatim>\<open>socket.roomId\<close> only.\<close>

definition end_meeting :: "socket \<Rightarrow> (string + Router) \<Rightarrow> server_state \<Rightarrow> server_state" where
  "end_meeting sock rtr s =
     (if \<not> truthy (sock_roomId sock) then s
      else
        (let r = the (sock_roomId sock) in
         case redis s (roomKey r) of
           None \<Rightarrow> s
         | Some roomData \<Rightarrow>
             (let s1 = fold (\<lambda>peer. cleanupPeer r peer) (peers roomData) s;
                  s2 = deleteRoom r s1
              in case rtr of
                   Inl msg \<Rightarrow> emit [Unhandled msg] s2
                 | Inr router \<Rightarrow>
                     (case stopHlsRecording r (emit [RouterClose (router_id router)] s2) of
                        (pending, s3) \<Rightarrow>
                          emit pending (emit [EmitRoom r MeetingEnded] (unflagHls r s3))))))"

text \<open>\<^verbatim>\<open>socket.on('disconnect')\<close>.\<close>

definition disconnect :: "socket \<Rightarrow> (string + Router) \<Rightarrow> server_state \<Rightarrow> server_state" where
  "disconnect sock rtr s =
     (case identity sock of
        None \<Rightarrow> s
      | Some (r, u) \<Rightarrow>
          (let s1 = cleanupPeer r u s in
           case redis s1 (roomKey r) of
             None \<Rightarrow> s1
           | Some roomData \<Rightarrow>
               (let remaining = filter (\<lambda>p. p \<noteq> u) (peers roomData) in
                if length remaining > 0 then
                  emit [EmitRoom r (PeerLeft u)]
                    (s1\<lparr>redis := (redis s1)(roomKey r \<mapsto> roomData\<lparr>peers := remaining\<rparr>)\<rparr>)
                else
                  (let s2 = deleteRoom r s1 in
                   case rtr of
                     Inl msg \<Rightarrow> emit [Unhandled msg] s2
                   | Inr router \<Rightarrow>
                       (case stopHlsRecording r (emit [RouterClose (router_id router)] s2) of
                          (pending, s3) \<Rightarrow> emit pending (unflagHls r s3))))))"

section \<open>File injection (injectFile.ts)\<close>






section \<open>Listeners\<close>

text \<open>
  The handlers leave listeners behind, which run when the media engine or the
  subprocess reports an event.  \<open>producerClosed\<close> is the \<^verbatim>\<open>@close\<close> listener of a
  producer recorded under key \<open>k\<close> and kind \<open>kd\<close>; \<open>consumerProducerClosed\<close> is the
  \<^verbatim>\<open>producerclose\<close> listener of a consumer created for socket \<open>sid\<close>; \<open>ffmpegError\<close> and
  \<open>ffmpegClosed\<close> are the \<^verbatim>\<open>error\<close> and \<^verbatim>\<open>close\<close> listeners of the playback subprocess
  (the \<^verbatim>\<open>close\<close> listener releases whatever session is recorded for the room when it
  runs).
\<close>

definition producerClosed :: "string \<Rightarrow> kind \<Rightarrow> server_state \<Rightarrow> server_state" where
  "producerClosed k kd s =
     (case producerInfo s k of
        None \<Rightarrow> s
      | Some info \<Rightarrow>
          s\<lparr>producerInfo := (producerInfo s)
                (k \<mapsto> info\<lparr>producers := AList.delete kd (producers info)\<rparr>)\<rparr>)"

definition consumerProducerClosed :: "string \<Rightarrow> string \<Rightarrow> string \<Rightarrow> server_state \<Rightarrow> server_state" where
  "consumerProducerClosed sid k cid s =
     (let s1 = emit [EmitSocket sid (ConsumerClosed cid)] s in
      case consumerInfo s1 k of
        None \<Rightarrow> s1
      | Some info \<Rightarrow>
          s1\<lparr>consumerInfo := (consumerInfo s1)
                 (k \<mapsto> info\<lparr>consumers := AList.delete cid (consumers info)\<rparr>)\<rparr>)"

definition ffmpegError :: "string \<Rightarrow> Consumer \<Rightarrow> PlainTransport \<Rightarrow> server_state \<Rightarrow> server_state" where
  "ffmpegError r c pt s =
     (emit [ConsumerClose (consumer_id c), TransportClose (plain_id pt), Unlink r] s)
       \<lparr>hlsSessions := (hlsSessions s)(r := None)\<rparr>"

definition ffmpegClosed :: "string \<Rightarrow> server_state \<Rightarrow> server_state" where
  "ffmpegClosed r s =
     emit [Unlink r]
       (case hlsSessions s r of
          None \<Rightarrow> s
        | Some sess \<Rightarrow>
            (emit ((case hls_consumer sess of None \<Rightarrow> [] | Some c \<Rightarrow> [ConsumerClose (consumer_id c)])
                   @ (case hls_plainTransport sess of None \<Rightarrow> [] | Some t \<Rightarrow> [TransportClose (plain_id t)])) s)
              \<lparr>hlsSessions := (hlsSessions s)(r := None)\<rparr>)"

section \<open>Signalling messages\<close>

text \<open>
  The messages a client sends after \<^verbatim>\<open>joinRoom\<close>, with the transport-level
  \<^verbatim>\<open>disconnect\<close>, each with the answers of the environment its handler may ask for.
  The handler of \<^verbatim>\<open>audioChunks\<close> uploads audio for transcription; it is no part of the
  signalling protocol, touches none of the maps above, and is left out, as is the
  \<^verbatim>\<open>audioId\<close> that \<^verbatim>\<open>joinRoom\<close> draws for it.
\<close>

datatype message =
    CreateWebRTCTransport transports_ext
  | TransportConnectMsg string "string option"
  | TransportRecvConnectMsg string "string option"
  | TransportProduceMsg TransportProducePayload produce_ext
  | ConsumeMsg ConsumePayload consume_ext
  | ConsumerResumeMsg string "string option"
  | HangupMsg
  | EndMeetingMsg "string + Router"
  | DisconnectMsg "string + Router"

fun handle :: "socket \<Rightarrow> message \<Rightarrow> server_state \<Rightarrow> server_state" where
  "handle sock (CreateWebRTCTransport ext) s = createWebRTCTransport sock ext s"
| "handle sock (TransportConnectMsg dtls reply) s = transport_connect sock dtls reply s"
| "handle sock (TransportRecvConnectMsg dtls reply) s = transport_recv_connect sock dtls reply s"
| "handle sock (TransportProduceMsg p ext) s = transport_produce sock p ext s"
| "handle sock (ConsumeMsg p ext) s = consume sock p ext s"
| "handle sock (ConsumerResumeMsg cid reply) s = consumer_resume sock cid reply s"
| "handle sock HangupMsg s = hangup sock s"
| "handle sock (EndMeetingMsg rtr) s = end_meeting sock rtr s"
| "handle sock (DisconnectMsg rtr) s = disconnect sock rtr s"

section \<open>A scenario\<close>

text \<open>
  The server starts with empty maps.  In the scenario alice creates room \<open>r1\<close>, bob
  joins it, both negotiate their transports, and alice produces video, which starts
  the playback pipeline of the room.
\<close>

definition added :: "server_state \<Rightarrow> server_state \<Rightarrow> event list" where
  "added s s' = drop (length (trace s)) (trace s')"

definition initialState :: server_state where
  "initialState =
     \<lparr>producerInfo = Map.empty, consumerInfo = Map.empty, hlsActiveRooms = {},
      hlsSessions = Map.empty, injectSessions = Map.empty, redis = Map.empty, trace = []\<rparr>"

definition router1 :: Router where
  "router1 = \<lparr>router_id = ''router-r1'', rtpCapabilities = ''caps''\<rparr>"

definition newSocket :: "string \<Rightarrow> socket" where
  "newSocket sid = \<lparr>socket_id = sid, sock_username = None, sock_roomId = None\<rparr>"

definition aliceSocket :: socket where
  "aliceSocket = \<lparr>socket_id = ''sA'', sock_username = Some ''alice'', sock_roomId = Some ''r1''\<rparr>"

definition bobSocket :: socket where
  "bobSocket = \<lparr>socket_id = ''sB'', sock_username = Some ''bob'', sock_roomId = Some ''r1''\<rparr>"

definition webrtc :: "string \<Rightarrow> WebRtcTransport" where
  "webrtc i = \<lparr>transport_id = i, transport_params = []\<rparr>"

definition transportsFor :: "string \<Rightarrow> string \<Rightarrow> transports_ext" where
  "transportsFor a b =
     \<lparr>xt_getRouter = Inr router1, xt_producerTransport = Inr (webrtc a),
      xt_consumerTransport = Inr (webrtc b)\<rparr>"

definition plain :: "string \<Rightarrow> PlainTransport" where
  "plain i = \<lparr>plain_id = i, plain_localPort = 40000\<rparr>"

definition videoConsumer :: "string \<Rightarrow> Consumer" where
  "videoConsumer i = \<lparr>consumer_id = i, consumer_kind = Video, consumer_rtpParameters = []\<rparr>"

definition hlsReplies :: "string \<Rightarrow> string \<Rightarrow> nat \<Rightarrow> hls_ext" where
  "hlsReplies t c f =
     \<lparr>xh_plainTransport = Inr (plain t), xh_consumer = Inr (videoConsumer c),
      xh_ffmpeg = f, xh_resume = None\<rparr>"

definition produceReplies :: "string \<Rightarrow> hls_ext \<Rightarrow> produce_ext" where
  "produceReplies pid h = \<lparr>xp_produce = Inr pid, xp_getRouter = Inr router1, xp_hls = h\<rparr>"

definition videoOf :: "string \<Rightarrow> TransportProducePayload" where
  "videoOf u = \<lparr>tp_kind = Video, tp_rtpParameters = [], tp_appData_username = u\<rparr>"

definition videoProducer :: "string \<Rightarrow> string \<Rightarrow> Producer" where
  "videoProducer i u = \<lparr>producer_id = i, producer_kind = Video, producer_appData_username = u\<rparr>"

definition aliceJoined :: server_state where
  "aliceJoined = snd (joinRoom (newSocket ''sA'')
      \<lparr>jp_username = ''alice'', jp_roomId = ''r1'', jp_isCreator = True\<rparr> (Inr router1) initialState)"

definition bothJoined :: server_state where
  "bothJoined = snd (joinRoom (newSocket ''sB'')
      \<lparr>jp_username = ''bob'', jp_roomId = ''r1'', jp_isCreator = False\<rparr> (Inr router1) aliceJoined)"

definition bothReady :: server_state where
  "bothReady = createWebRTCTransport bobSocket (transportsFor ''tB-send'' ''tB-recv'')
                 (createWebRTCTransport aliceSocket (transportsFor ''tA-send'' ''tA-recv'') bothJoined)"

definition aliceStreaming :: server_state where
  "aliceStreaming = transport_produce aliceSocket (videoOf ''alice'')
                      (produceReplies ''pA1'' (hlsReplies ''plain1'' ''hc1'' 1)) bothReady"

definition consumeOf :: "string \<Rightarrow> string \<Rightarrow> ConsumePayload" where
  "consumeOf pid u = \<lparr>cp_rtpCapabilities = ''caps'', cp_remoteProducerId = pid, cp_remoteUsername = u\<rparr>"

definition consumeReplies :: "bool \<Rightarrow> string \<Rightarrow> consume_ext" where
  "consumeReplies ok cid =
     \<lparr>xc_getRouter = Inr router1, xc_canConsume = ok, xc_consume = Inr (videoConsumer cid)\<rparr>"

text \<open>Bob consumes alice's video.\<close>

definition bobWatching :: server_state where
  "bobWatching = consume bobSocket (consumeOf ''pA1'' ''alice'') (consumeReplies True ''cB1'') aliceStreaming"

text \<open>The pipeline of the room is started again, for a producer of bob.\<close>

definition bothStreaming :: "string option \<times> server_state" where
  "bothStreaming = startHlsRecording ''r1'' (videoProducer ''pB1'' ''bob'') router1
                     (hlsReplies ''plain2'' ''hc2'' 2) aliceStreaming"

text \<open>Alice produces video a second time; the room is flagged, so no pipeline is started.\<close>

definition aliceAgain :: server_state where
  "aliceAgain = transport_produce aliceSocket (videoOf ''alice'')
                  (produceReplies ''pA2'' (hlsReplies ''plain2'' ''hc2'' 2)) aliceStreaming"

text \<open>Bob asks to consume a producer id the router does not know: the engine's
  \<^verbatim>\<open>canConsume\<close> answers \<^verbatim>\<open>false\<close>.\<close>

definition bobAsksUnknown :: server_state where
  "bobAsksUnknown = consume bobSocket (consumeOf ''no-such-producer'' ''alice'')
                      (consumeReplies False ''cB1'') aliceStreaming"

text \<open>A new connection asks to join room \<open>r9\<close>, which does not exist, as a non-creator.\<close>

definition malloryRefused :: "socket \<times> server_state" where
  "malloryRefused = joinRoom (newSocket ''sM'')
      \<lparr>jp_username = ''mallory'', jp_roomId = ''r9'', jp_isCreator = False\<rparr> (Inr router1) aliceStreaming"

text \<open>
  A new connection asks to create room \<open>r1\<close>, which exists, under alice's name; the
  join is refused, and the refused connection then sends \<^verbatim>\<open>end-meeting\<close>.
\<close>

definition impostorRefused :: "socket \<times> server_state" where
  "impostorRefused = joinRoom (newSocket ''sM'')
      \<lparr>jp_username = ''alice'', jp_roomId = ''r1'', jp_isCreator = True\<rparr> (Inr router1) aliceStreaming"

definition endedByImpostor :: server_state where
  "endedByImpostor = end_meeting (fst impostorRefused) (Inr router1) (snd impostorRefused)"






text \<open>
  The subprocesses that the server has spawned for a room and has not killed since,
  read off the effect trace.
\<close>

fun liveFfmpeg :: "string \<Rightarrow> event list \<Rightarrow> nat list" where
  "liveFfmpeg r [] = []"
| "liveFfmpeg r (Spawn f r' # es) =
     (if r' = r \<and> Kill f \<notin> set es then f # liveFfmpeg r es else liveFfmpeg r es)"
| "liveFfmpeg r (e # es) = liveFfmpeg r es"

text \<open>
  Alice and bob both send \<^verbatim>\<open>transport-produce\<close> for video before either handler has
  finished.  Both handlers run up to their \<^verbatim>\<open>transport.produce\<close> call (\<open>bothAsked\<close>).
  Then alice's handler is resumed and runs up to \<^verbatim>\<open>createPlainTransport\<close>; bob's handler
  is resumed while alice's waits there and runs up to its own \<^verbatim>\<open>createPlainTransport\<close>;
  then alice's handler runs to its end, and bob's after it.
\<close>

definition aliceReplies :: produce_ext where
  "aliceReplies = produceReplies ''pA1'' (hlsReplies ''plain1'' ''hc1'' 1)"

definition bobReplies :: produce_ext where
  "bobReplies = produceReplies ''pB1'' (hlsReplies ''plain2'' ''hc2'' 2)"

definition aliceCtx :: produce_ctx where
  "aliceCtx = \<lparr>ctx_sid = ''sA'', ctx_room = ''r1'', ctx_user = ''alice''\<rparr>"

definition bobCtx :: produce_ctx where
  "bobCtx = \<lparr>ctx_sid = ''sB'', ctx_room = ''r1'', ctx_user = ''bob''\<rparr>"

definition bothAsked :: two_runs where
  "bothAsked =
     (case produceStart aliceSocket (videoOf ''alice'') bothReady of
        (ta, sa) \<Rightarrow>
          (case produceStart bobSocket (videoOf ''bob'') sa of
             (tb, sb) \<Rightarrow> \<lparr>left_run = ta, right_run = tb, shared = sb\<rparr>))"

definition raceSchedule :: "turn list" where
  "raceSchedule = [Left, Right, Left, Left, Left, Right, Right, Right]"

definition raced :: two_runs where
  "raced = interleave aliceReplies bobReplies raceSchedule bothAsked"

text \<open>The effect trace of the two joins and the two transport negotiations.\<close>

definition joinTrace :: "event list" where
  "joinTrace =
     [SocketJoin ''sA'' ''r1'', Ack ''sA'' (RJoined ''caps'' None),
      SocketJoin ''sB'' ''r1'', Ack ''sB'' (RJoined ''caps'' (Some [])),
      CallCreateWebRtcTransport ''router-r1'', CallCreateWebRtcTransport ''router-r1'',
      Ack ''sA'' (RTransports (webrtc ''tA-send'') (webrtc ''tA-recv'')),
      CallCreateWebRtcTransport ''router-r1'', CallCreateWebRtcTransport ''router-r1'',
      Ack ''sB'' (RTransports (webrtc ''tB-send'') (webrtc ''tB-recv''))]"

section \<open>Evaluating the scenario\<close>

lemmas fixture_defs = initialState_def router1_def newSocket_def aliceSocket_def bobSocket_def
  webrtc_def transportsFor_def hlsReplies_def produceReplies_def videoOf_def plain_def
  videoConsumer_def videoProducer_def

lemmas model_defs = emit_def ack_def peerKey_def roomKey_def truthy_def identity_def
  emptyProducerInfo_def emptyConsumerInfo_def existingProducers_def joinRoom_def
  createWebRTCTransport_def transport_produce_def startHlsRecording_def hlsBegin_def
  hlsConsume_def hlsSpawn_def hlsStore_def stopHlsRecording_def releaseHlsSession_def
  stopIssued_def stopPending_def
  newProducer_def produceDone_def flagHlsActive_def typeError_def

lemma aliceJoined_socket:
  "fst (joinRoom (newSocket ''sA'')
      \<lparr>jp_username = ''alice'', jp_roomId = ''r1'', jp_isCreator = True\<rparr> (Inr router1) initialState)
   = aliceSocket"
  by (simp add: fixture_defs model_defs Let_def)

lemma aliceJoined_eval:
  "aliceJoined =
     \<lparr>producerInfo = [''r1:alice'' \<mapsto> emptyProducerInfo],
      consumerInfo = [''r1:alice'' \<mapsto> emptyConsumerInfo],
      hlsActiveRooms = {}, hlsSessions = Map.empty, injectSessions = Map.empty,
      redis = [''room:r1'' \<mapsto> \<lparr>peers = [''alice'']\<rparr>],
      trace = [SocketJoin ''sA'' ''r1'', Ack ''sA'' (RJoined ''caps'' None)]\<rparr>"
  by (simp add: aliceJoined_def fixture_defs model_defs Let_def)

lemma bothJoined_eval:
  "bothJoined =
     \<lparr>producerInfo = [''r1:alice'' \<mapsto> emptyProducerInfo, ''r1:bob'' \<mapsto> emptyProducerInfo],
      consumerInfo = [''r1:alice'' \<mapsto> emptyConsumerInfo, ''r1:bob'' \<mapsto> emptyConsumerInfo],
      hlsActiveRooms = {}, hlsSessions = Map.empty, injectSessions = Map.empty,
      redis = [''room:r1'' \<mapsto> \<lparr>peers = [''alice'', ''bob'']\<rparr>],
      trace = [SocketJoin ''sA'' ''r1'', Ack ''sA'' (RJoined ''caps'' None),
               SocketJoin ''sB'' ''r1'', Ack ''sB'' (RJoined ''caps'' (Some []))]\<rparr>"
  by (simp add: bothJoined_def aliceJoined_eval fixture_defs model_defs Let_def)

lemma bothReady_eval:
  "bothReady =
     \<lparr>producerInfo = [''r1:alice'' \<mapsto> \<lparr>producerTransport = Some (webrtc ''tA-send''), producers = []\<rparr>,
                      ''r1:bob'' \<mapsto> \<lparr>producerTransport = Some (webrtc ''tB-send''), producers = []\<rparr>],
      consumerInfo = [''r1:alice'' \<mapsto> \<lparr>consumerTransport = Some (webrtc ''tA-recv''), consumers = []\<rparr>,
                      ''r1:bob'' \<mapsto> \<lparr>consumerTransport = Some (webrtc ''tB-recv''), consumers = []\<rparr>],
      hlsActiveRooms = {}, hlsSessions = Map.empty, injectSessions = Map.empty,
      redis = [''room:r1'' \<mapsto> \<lparr>peers = [''alice'', ''bob'']\<rparr>],
      trace = joinTrace\<rparr>"
  by (simp add: bothReady_def bothJoined_eval joinTrace_def fixture_defs model_defs Let_def fun_upd_twist)

lemma aliceStreaming_eval:
  "aliceStreaming =
     \<lparr>producerInfo = [''r1:alice'' \<mapsto> \<lparr>producerTransport = Some (webrtc ''tA-send''),
                                        producers = [(Video, videoProducer ''pA1'' ''alice'')]\<rparr>,
                      ''r1:bob'' \<mapsto> \<lparr>producerTransport = Some (webrtc ''tB-send''), producers = []\<rparr>],
      consumerInfo = [''r1:alice'' \<mapsto> \<lparr>consumerTransport = Some (webrtc ''tA-recv''), consumers = []\<rparr>,
                      ''r1:bob'' \<mapsto> \<lparr>consumerTransport = Some (webrtc ''tB-recv''), consumers = []\<rparr>],
      hlsActiveRooms = {''r1''},
      hlsSessions = [''r1'' \<mapsto> \<lparr>hls_ffmpeg = Some 1, hls_plainTransport = Some (plain ''plain1''),
                                 hls_consumer = Some (videoConsumer ''hc1'')\<rparr>],
      injectSessions = Map.empty,
      redis = [''room:r1'' \<mapsto> \<lparr>peers = [''alice'', ''bob'']\<rparr>],
      trace = joinTrace @
              [CallProduce ''tA-send'' Video, CallCreatePlainTransport ''router-r1'',
               CallConsume ''plain1'' ''pA1'' True, Mkdir ''r1'', WriteFile ''r1'', Spawn 1 ''r1'',
               ConsumerResume ''hc1'', EmitRoomExcept ''sA'' ''r1'' (NewProducer ''alice'' ''pA1''),
               Ack ''sA'' (RProduced ''pA1'')]\<rparr>"
  by (simp add: aliceStreaming_def bothReady_eval fixture_defs model_defs Let_def fun_upd_twist)

section \<open>Properties\<close>

lemma hlsBegin_trace:
  "trace (hlsBegin r router s) =
     trace s @ (case hlsSessions s r of None \<Rightarrow> [] | Some sess \<Rightarrow> releaseHlsSession sess)
     @ [CallCreatePlainTransport (router_id router)]"
  by (simp add: hlsBegin_def emit_def split: option.splits)

lemma hlsBegin_frame:
  "producerInfo (hlsBegin r router s) = producerInfo s"
  "consumerInfo (hlsBegin r router s) = consumerInfo s"
  by (simp_all add: hlsBegin_def emit_def split: option.splits)

lemma identity_unset: "\<not> truthy (sock_roomId sock) \<Longrightarrow> identity sock = None"
  by (simp add: identity_def)

lemma cleanupProducers_none:
  "producerInfo s k = None \<Longrightarrow> cleanupProducers k s = s"
  by (simp add: cleanupProducers_def)

lemma cleanupConsumers_none:
  "consumerInfo s k = None \<Longrightarrow> cleanupConsumers k s = s"
  by (simp add: cleanupConsumers_def)

lemma cleanupProducers_frame:
  "consumerInfo (cleanupProducers k s) = consumerInfo s"
  "redis (cleanupProducers k s) = redis s"
  "hlsActiveRooms (cleanupProducers k s) = hlsActiveRooms s"
  "hlsSessions (cleanupProducers k s) = hlsSessions s"
  "injectSessions (cleanupProducers k s) = injectSessions s"
  "producerInfo (cleanupProducers k s) = (producerInfo s)(k := None)"
  by (auto simp: cleanupProducers_def emit_def split: option.splits)

lemma cleanupConsumers_frame:
  "producerInfo (cleanupConsumers k s) = producerInfo s"
  "redis (cleanupConsumers k s) = redis s"
  "hlsActiveRooms (cleanupConsumers k s) = hlsActiveRooms s"
  "hlsSessions (cleanupConsumers k s) = hlsSessions s"
  "injectSessions (cleanupConsumers k s) = injectSessions s"
  "consumerInfo (cleanupConsumers k s) = (consumerInfo s)(k := None)"
  by (auto simp: cleanupConsumers_def emit_def split: option.splits)

lemma cleanupPeer_frame:
  "redis (cleanupPeer r u s) = redis s"
  "hlsActiveRooms (cleanupPeer r u s) = hlsActiveRooms s"
  "hlsSessions (cleanupPeer r u s) = hlsSessions s"
  "injectSessions (cleanupPeer r u s) = injectSessions s"
  "producerInfo (cleanupPeer r u s) = (producerInfo s)(peerKey r u := None)"
  "consumerInfo (cleanupPeer r u s) = (consumerInfo s)(peerKey r u := None)"
  by (simp_all add: cleanupPeer_def cleanupProducers_frame cleanupConsumers_frame)

lemma cleanupProducers_redis_indep:
  "cleanupProducers k (s\<lparr>redis := d\<rparr>) = (cleanupProducers k s)\<lparr>redis := d\<rparr>"
  by (simp add: cleanupProducers_def emit_def split: option.splits)

lemma cleanupConsumers_redis_indep:
  "cleanupConsumers k (s\<lparr>redis := d\<rparr>) = (cleanupConsumers k s)\<lparr>redis := d\<rparr>"
  by (simp add: cleanupConsumers_def emit_def split: option.splits)

lemma cleanupPeer_redis_indep:
  "cleanupPeer r u (s\<lparr>redis := d\<rparr>) = (cleanupPeer r u s)\<lparr>redis := d\<rparr>"
  by (simp add: cleanupPeer_def cleanupProducers_redis_indep cleanupConsumers_redis_indep)

lemma cleanupPeer_alice_trace:
  "trace (cleanupPeer ''r1'' ''alice'' aliceStreaming) =
     trace aliceStreaming @
     [ProducerClose ''pA1'', TransportClose ''tA-send'', TransportClose ''tA-recv'']"
  by (simp add: aliceStreaming_eval cleanupPeer_def cleanupProducers_def cleanupConsumers_def
        transportCloseEvents_def emit_def peerKey_def fixture_defs)

subsection \<open>C6\<close>

text \<open>
  C6.  Peer teardown is idempotent: a second \<^verbatim>\<open>cleanupPeer\<close> for the same room and
  username finds neither a producer record nor a consumer record, makes no further
  close call (the effect trace is part of the state) and cannot fail, so
  \<^verbatim>\<open>cleanupPeer\<close> composed with itself equals a single invocation.
\<close>

theorem cleanupPeer_idempotent:
  "cleanupPeer r u (cleanupPeer r u s) = cleanupPeer r u s"
proof -
  let ?s = "cleanupPeer r u s"
  have "cleanupProducers (peerKey r u) ?s = ?s"
    by (simp add: cleanupProducers_none cleanupPeer_frame)
  moreover have "cleanupConsumers (peerKey r u) ?s = ?s"
    by (simp add: cleanupConsumers_none cleanupPeer_frame)
  ultimately show ?thesis
    unfolding cleanupPeer_def by simp
qed

text \<open>
  In the scenario the first teardown of alice closes her producer and both her
  transports; the second adds nothing to the trace.
\<close>

theorem cleanupPeer_idempotent_witness:
  "trace (cleanupPeer ''r1'' ''alice'' (cleanupPeer ''r1'' ''alice'' aliceStreaming)) =
     trace aliceStreaming @
     [ProducerClose ''pA1'', TransportClose ''tA-send'', TransportClose ''tA-recv'']"
  using cleanupPeer_idempotent [of "''r1''" "''alice''" aliceStreaming]
  by (simp add: cleanupPeer_alice_trace)

subsection \<open>C9\<close>

text \<open>
  C9.  \<^verbatim>\<open>hangup\<close> changes only the caller's in-memory producer and consumer records
  and emits a peer-left notification.  It neither reads nor writes the durable room
  record: its result does not depend on the store and leaves the store as it was, so
  the departed peer's username stays in the stored peer list and no room is deleted.
  The playback flag and the pipeline and injection sessions are left alone as well.
\<close>

theorem hangup_frame:
  "hangup sock (s\<lparr>redis := d\<rparr>) = (hangup sock s)\<lparr>redis := d\<rparr> \<and>
   redis (hangup sock s) = redis s \<and>
   hlsActiveRooms (hangup sock s) = hlsActiveRooms s \<and>
   hlsSessions (hangup sock s) = hlsSessions s \<and>
   injectSessions (hangup sock s) = injectSessions s \<and>
   (\<forall>r u. identity sock = Some (r, u) \<longrightarrow>
      producerInfo (hangup sock s) = (producerInfo s)(peerKey r u := None) \<and>
      consumerInfo (hangup sock s) = (consumerInfo s)(peerKey r u := None) \<and>
      trace (hangup sock s) = trace (cleanupPeer r u s) @ [EmitRoom r (PeerLeft u)])"
  by (cases "identity sock")
     (auto simp: hangup_def emit_def cleanupPeer_frame cleanupPeer_redis_indep)

text \<open>After alice hangs up in the scenario she is still listed in the stored room.\<close>

theorem hangup_frame_witness:
  "identity aliceSocket = Some (''r1'', ''alice'') \<and>
   redis (hangup aliceSocket aliceStreaming) ''room:r1'' = Some \<lparr>peers = [''alice'', ''bob'']\<rparr> \<and>
   producerInfo (hangup aliceSocket aliceStreaming) ''r1:alice'' = None \<and>
   producerInfo (hangup aliceSocket aliceStreaming) ''r1:bob'' = producerInfo aliceStreaming ''r1:bob'' \<and>
   trace (hangup aliceSocket aliceStreaming) =
     trace aliceStreaming @
     [ProducerClose ''pA1'', TransportClose ''tA-send'', TransportClose ''tA-recv'',
      EmitRoom ''r1'' (PeerLeft ''alice'')]"
proof -
  have i: "identity aliceSocket = Some (''r1'', ''alice'')"
    by (simp add: identity_def truthy_def aliceSocket_def)
  have r: "redis aliceStreaming ''room:r1'' = Some \<lparr>peers = [''alice'', ''bob'']\<rparr>"
    by (simp add: aliceStreaming_eval)
  from hangup_frame [where sock = aliceSocket and s = aliceStreaming] i r
  show ?thesis
    by (simp add: cleanupPeer_alice_trace peerKey_def)
qed

subsection \<open>C10\<close>

text \<open>
  C10.  A signalling message on a connection on which no join has set the socket's
  room id and username is dropped: the handler returns at its guard, the state (maps,
  store, effect trace) is the one before, so nothing was mutated and no acknowledgement
  was sent.  \<^verbatim>\<open>joinRoom\<close> sets \<^verbatim>\<open>socket.roomId\<close> and \<^verbatim>\<open>socket.username\<close> together; the
  guard of every handler, the one of \<^verbatim>\<open>end-meeting\<close> included, fires already when
  \<^verbatim>\<open>socket.roomId\<close> is unset.
\<close>

theorem unjoined_socket_ignored:
  assumes "\<not> truthy (sock_roomId sock)"
  shows "handle sock m s = s"
  using identity_unset [OF assms] assms
  by (cases m)
     (simp_all add: createWebRTCTransport_def transport_connect_def transport_recv_connect_def
        transport_produce_def consume_def consumer_resume_def hangup_def end_meeting_def
        disconnect_def)

theorem unjoined_socket_ignored_witness:
  "\<not> truthy (sock_roomId (newSocket ''sC'')) \<and>
   handle (newSocket ''sC'')
     (TransportProduceMsg (videoOf ''carol'') (produceReplies ''pC1'' (hlsReplies ''plain9'' ''hc9'' 9)))
     aliceStreaming = aliceStreaming \<and>
   handle (newSocket ''sC'') (EndMeetingMsg (Inr router1)) aliceStreaming = aliceStreaming"
proof -
  have u: "\<not> truthy (sock_roomId (newSocket ''sC''))"
    by (simp add: truthy_def newSocket_def)
  show ?thesis
    using u unjoined_socket_ignored [OF u] by (simp del: handle.simps)
qed

subsection \<open>C7\<close>

lemma added_trace_append: "trace s' = trace s @ es \<Longrightarrow> added s s' = es"
  by (simp add: added_def)

lemma consume_trace:
  "\<exists>es. trace (consume sock p ext s) = trace s @ es \<and>
        (\<forall>t pid. CallConsume t pid False \<notin> set es) \<and>
        (consumerInfo (consume sock p ext s) \<noteq> consumerInfo s \<longrightarrow>
           (\<exists>t. CallConsume t (cp_remoteProducerId p) True \<in> set es))"
  by (auto simp: consume_def emit_def ack_def Let_def split: option.splits sum.splits prod.splits)

lemma bobWatching_eval:
  "bobWatching = aliceStreaming
     \<lparr>consumerInfo := [''r1:alice'' \<mapsto> \<lparr>consumerTransport = Some (webrtc ''tA-recv''), consumers = []\<rparr>,
                      ''r1:bob'' \<mapsto> \<lparr>consumerTransport = Some (webrtc ''tB-recv''),
                                      consumers = [(''cB1'', videoConsumer ''cB1'')]\<rparr>],
      trace := trace aliceStreaming @
               [CallConsume ''tB-recv'' ''pA1'' True, Ack ''sB'' (RConsumed ''cB1'' ''pA1'' Video [])]\<rparr>"
  by (simp add: bobWatching_def aliceStreaming_eval consume_def consumeOf_def consumeReplies_def
        fixture_defs model_defs Let_def)

text \<open>
  C7.  Every call of \<^verbatim>\<open>transport.consume\<close> that the consume handler makes passes
  \<^verbatim>\<open>paused: true\<close>, and the handler records a consumer only after such a call.  A
  \<^verbatim>\<open>consumer-resume\<close> whose id is not in the caller's consumer map does nothing: no
  call, no error, the state is the one before.
\<close>

theorem consumers_created_paused:
  "(CallConsume t pid paused \<in> set (added s (consume sock p ext s)) \<longrightarrow> paused) \<and>
   (consumerInfo (consume sock p ext s) \<noteq> consumerInfo s \<longrightarrow>
      (\<exists>t. CallConsume t (cp_remoteProducerId p) True \<in> set (added s (consume sock p ext s)))) \<and>
   ((\<forall>r u info. identity sock = Some (r, u) \<longrightarrow> consumerInfo s (peerKey r u) = Some info \<longrightarrow>
        map_of (consumers info) cid = None) \<longrightarrow>
      consumer_resume sock cid reply s = s)"
proof -
  obtain es where es: "trace (consume sock p ext s) = trace s @ es"
    "\<forall>t pid. CallConsume t pid False \<notin> set es"
    "consumerInfo (consume sock p ext s) \<noteq> consumerInfo s \<longrightarrow>
           (\<exists>t. CallConsume t (cp_remoteProducerId p) True \<in> set es)"
    using consume_trace by blast
  have a: "added s (consume sock p ext s) = es"
    using es(1) by (rule added_trace_append)
  have 1: "CallConsume t pid paused \<in> set (added s (consume sock p ext s)) \<longrightarrow> paused"
    using es(2) a by (cases paused) auto
  have 3: "(\<forall>r u info. identity sock = Some (r, u) \<longrightarrow> consumerInfo s (peerKey r u) = Some info \<longrightarrow>
        map_of (consumers info) cid = None) \<longrightarrow> consumer_resume sock cid reply s = s"
    by (auto simp: consumer_resume_def split: option.splits)
  from 1 es(3) a 3 show ?thesis by simp
qed

theorem consumers_created_paused_witness:
  "CallConsume ''tB-recv'' ''pA1'' True \<in> set (added aliceStreaming bobWatching) \<and>
   consumerInfo bobWatching \<noteq> consumerInfo aliceStreaming \<and>
   consumer_resume bobSocket ''gone'' None bobWatching = bobWatching"
proof -
  have i: "\<And>r u. identity bobSocket = Some (r, u) \<longleftrightarrow> r = ''r1'' \<and> u = ''bob''"
    by (auto simp: identity_def truthy_def bobSocket_def)
  have c: "consumerInfo bobWatching ''r1:bob'' = Some \<lparr>consumerTransport = Some (webrtc ''tB-recv''),
                                      consumers = [(''cB1'', videoConsumer ''cB1'')]\<rparr>"
    by (simp add: bobWatching_eval)
  have d: "consumerInfo aliceStreaming ''r1:bob'' = Some \<lparr>consumerTransport = Some (webrtc ''tB-recv''),
                                      consumers = []\<rparr>"
    by (simp add: aliceStreaming_eval)
  have ne: "consumerInfo bobWatching \<noteq> consumerInfo aliceStreaming"
    using c d by (metis list.distinct(1) option.inject PeerConsumerInfo.ext_inject)
  have a: "added aliceStreaming bobWatching =
      [CallConsume ''tB-recv'' ''pA1'' True, Ack ''sB'' (RConsumed ''cB1'' ''pA1'' Video [])]"
    by (simp add: added_def bobWatching_eval)
  have h: "\<forall>r u info. identity bobSocket = Some (r, u) \<longrightarrow>
             consumerInfo bobWatching (peerKey r u) = Some info \<longrightarrow>
             map_of (consumers info) ''gone'' = None"
    using c by (auto simp: i peerKey_def)
  have "consumer_resume bobSocket ''gone'' None bobWatching = bobWatching"
    using consumers_created_paused [where s = bobWatching and sock = bobSocket
            and cid = "''gone''" and reply = None] h
    by blast
  then show ?thesis
    using a ne by simp
qed

subsection \<open>C8\<close>

lemma release_no_resume: "ConsumerResume x \<notin> set (releaseHlsSession sess)"
  by (auto simp: releaseHlsSession_def stopIssued_def stopPending_def split: option.splits)

lemma release_no_consume: "CallConsume t pid b \<notin> set (releaseHlsSession sess)"
  by (auto simp: releaseHlsSession_def stopIssued_def stopPending_def split: option.splits)

text \<open>
  C8.  In a run of \<^verbatim>\<open>startHlsRecording\<close> that returns without an error, the calls it
  makes end with the spawn of the subprocess followed by \<^verbatim>\<open>consumer.resume()\<close>.
  Before the spawn lies the \<^verbatim>\<open>consume\<close> call on the relay transport, made with
  \<^verbatim>\<open>paused: true\<close>; no consume call is unpaused and no consumer is resumed before the
  spawn.
\<close>

theorem resume_after_spawn:
  assumes "startHlsRecording r producer router ext s = (None, s')"
  shows "\<exists>pt c pre. xh_plainTransport ext = Inr pt \<and> xh_consumer ext = Inr c \<and>
           added s s' = pre @ [Spawn (xh_ffmpeg ext) r, ConsumerResume (consumer_id c)] \<and>
           CallConsume (plain_id pt) (producer_id producer) True \<in> set pre \<and>
           (\<forall>t pid. CallConsume t pid False \<notin> set pre) \<and>
           (\<forall>x. ConsumerResume x \<notin> set pre)"
proof -
  from assms obtain pt c where
    pt: "xh_plainTransport ext = Inr pt" and c: "xh_consumer ext = Inr c" and
    s': "s' = hlsStore r (xh_ffmpeg ext) pt c
               (hlsSpawn r (xh_ffmpeg ext) c (hlsConsume producer pt (hlsBegin r router s)))"
    by (auto simp: startHlsRecording_def Let_def split: sum.splits option.splits)
  let ?rel = "case hlsSessions s r of None \<Rightarrow> [] | Some sess \<Rightarrow> releaseHlsSession sess"
  let ?pre = "?rel @ [CallCreatePlainTransport (router_id router),
                      CallConsume (plain_id pt) (producer_id producer) True, Mkdir r, WriteFile r]"
  have "trace s' = trace s @ ?pre @ [Spawn (xh_ffmpeg ext) r, ConsumerResume (consumer_id c)]"
    by (simp add: s' hlsStore_def hlsSpawn_def hlsConsume_def hlsBegin_trace emit_def)
  then have a: "added s s' = ?pre @ [Spawn (xh_ffmpeg ext) r, ConsumerResume (consumer_id c)]"
    by (rule added_trace_append)
  have "\<forall>x. ConsumerResume x \<notin> set ?pre"
    by (auto simp: release_no_resume split: option.splits)
  moreover have "\<forall>t pid. CallConsume t pid False \<notin> set ?pre"
    by (auto simp: release_no_consume split: option.splits)
  moreover have "CallConsume (plain_id pt) (producer_id producer) True \<in> set ?pre"
    by simp
  ultimately show ?thesis
    using pt c a by blast
qed

text \<open>
  Restarting the pipeline of the scenario: the old session is released, the new
  consumer is created paused, and the resume is the call after the spawn.
\<close>

theorem resume_after_spawn_witness:
  "startHlsRecording ''r1'' (videoProducer ''pB1'' ''bob'') router1
       (hlsReplies ''plain2'' ''hc2'' 2) aliceStreaming = (None, snd bothStreaming) \<and>
   added aliceStreaming (snd bothStreaming) =
     [Kill 1, ConsumerClose ''hc1'', TransportClose ''plain1'',
      CallCreatePlainTransport ''router-r1'', CallConsume ''plain2'' ''pB1'' True,
      Mkdir ''r1'', WriteFile ''r1''] @ [Spawn 2 ''r1'', ConsumerResume ''hc2'']"
proof -
  have e: "startHlsRecording ''r1'' (videoProducer ''pB1'' ''bob'') router1
       (hlsReplies ''plain2'' ''hc2'' 2) aliceStreaming = (None, snd bothStreaming)"
    by (simp add: bothStreaming_def startHlsRecording_def hlsReplies_def Let_def)
  have t: "trace (snd bothStreaming) = trace aliceStreaming @
     [Kill 1, ConsumerClose ''hc1'', TransportClose ''plain1'',
      CallCreatePlainTransport ''router-r1'', CallConsume ''plain2'' ''pB1'' True,
      Mkdir ''r1'', WriteFile ''r1'', Spawn 2 ''r1'', ConsumerResume ''hc2'']"
    by (simp add: bothStreaming_def aliceStreaming_eval fixture_defs model_defs Let_def)
  from resume_after_spawn [OF e] e t show ?thesis
    by (simp add: added_def)
qed

subsection \<open>C3\<close>

lemma startHls_frame:
  assumes "startHlsRecording r producer router ext s = (e, s')"
  shows "producerInfo s' = producerInfo s \<and> consumerInfo s' = consumerInfo s \<and>
         (\<exists>es. trace s' = trace s @ es \<and> (\<forall>x. ProducerClose x \<notin> set es))"
proof -
  have r: "\<forall>x. ProducerClose x \<notin> set (case hlsSessions s r of None \<Rightarrow> [] | Some sess \<Rightarrow> releaseHlsSession sess)"
    by (auto simp: releaseHlsSession_def stopIssued_def stopPending_def split: option.splits)
  have b: "producerInfo (hlsBegin r router s) = producerInfo s \<and>
           consumerInfo (hlsBegin r router s) = consumerInfo s"
    by (simp add: hlsBegin_frame)
  have t: "trace (hlsBegin r router s) = trace s @
             (case hlsSessions s r of None \<Rightarrow> [] | Some sess \<Rightarrow> releaseHlsSession sess)
             @ [CallCreatePlainTransport (router_id router)]"
    by (simp add: hlsBegin_trace)
  from assms b show ?thesis
    using r
    by (auto simp: startHlsRecording_def Let_def t hlsConsume_def hlsSpawn_def hlsStore_def emit_def
             split: sum.splits option.splits)
qed

lemma update_present_keys:
  "map_of xs k = Some v \<Longrightarrow> map fst (AList.update k w xs) = map fst xs"
  by (induction xs) (auto split: if_splits)

lemma aliceAgain_eval:
  "aliceAgain = aliceStreaming
     \<lparr>producerInfo := [''r1:alice'' \<mapsto> \<lparr>producerTransport = Some (webrtc ''tA-send''),
                                        producers = [(Video, videoProducer ''pA2'' ''alice'')]\<rparr>,
                      ''r1:bob'' \<mapsto> \<lparr>producerTransport = Some (webrtc ''tB-send''), producers = []\<rparr>],
      trace := trace aliceStreaming @
               [CallProduce ''tA-send'' Video,
                EmitRoomExcept ''sA'' ''r1'' (NewProducer ''alice'' ''pA2''),
                Ack ''sA'' (RProduced ''pA2'')]\<rparr>"
  by (simp add: aliceAgain_def aliceStreaming_eval fixture_defs model_defs Let_def fun_upd_twist)

text \<open>
  C3, as amended.  When a peer that already has a producer of kind \<open>k\<close> sends a
  \<^verbatim>\<open>transport-produce\<close> of kind \<open>k\<close> and the media engine creates the producer, the
  handler records the new producer under \<open>k\<close> in place of the old one (same position,
  the other kinds and the transport untouched), and it makes no close call on any
  producer: the previous producer is replaced in the map without being closed.
\<close>

theorem produce_overwrites_without_close:
  assumes "identity sock = Some (r, u)"
    and "producerInfo s (peerKey r u) = Some info"
    and "producerTransport info = Some tr"
    and "map_of (producers info) (tp_kind p) = Some old"
    and "xp_produce ext = Inr pid"
  shows "\<exists>info'. producerInfo (transport_produce sock p ext s) (peerKey r u) = Some info' \<and>
           map_of (producers info') = (map_of (producers info))(tp_kind p \<mapsto> newProducer p pid) \<and>
           map fst (producers info') = map fst (producers info) \<and>
           producerTransport info' = producerTransport info \<and>
           (\<forall>x. ProducerClose x \<notin> set (added s (transport_produce sock p ext s)))"
proof -
  let ?producer = "newProducer p pid"
  let ?info' = "info\<lparr>producers := AList.update (tp_kind p) ?producer (producers info)\<rparr>"
  let ?s1 = "emit [CallProduce (transport_id tr) (tp_kind p)] s"
  let ?s2 = "?s1\<lparr>producerInfo := (producerInfo ?s1)(peerKey r u \<mapsto> ?info')\<rparr>"
  obtain s3 es where s3: "transport_produce sock p ext s = produceDone (socket_id sock) r u ?producer s3"
    and p3: "producerInfo s3 = producerInfo ?s2"
    and t3: "trace s3 = trace ?s2 @ es" "\<forall>x. ProducerClose x \<notin> set es"
  proof (cases "producer_kind ?producer = Video \<and> r \<notin> hlsActiveRooms ?s2")
    case False
    then have "transport_produce sock p ext s = produceDone (socket_id sock) r u ?producer ?s2"
      using assms by (auto simp: transport_produce_def Let_def emit_def)
    then show ?thesis using that [of ?s2 "[]"] by simp
  next
    case True
    show ?thesis
    proof (cases "xp_getRouter ext")
      case (Inl msg)
      then have "transport_produce sock p ext s = produceDone (socket_id sock) r u ?producer ?s2"
        using assms True by (auto simp: transport_produce_def Let_def emit_def)
      then show ?thesis using that [of ?s2 "[]"] by simp
    next
      case (Inr router)
      obtain e s' where h: "startHlsRecording r ?producer router (xp_hls ext) ?s2 = (e, s')"
        by (cases "startHlsRecording r ?producer router (xp_hls ext) ?s2") auto
      from startHls_frame [OF h] obtain es where
        f: "producerInfo s' = producerInfo ?s2" "trace s' = trace ?s2 @ es"
           "\<forall>x. ProducerClose x \<notin> set es"
        by blast
      show ?thesis
      proof (cases e)
        case None
        then have "transport_produce sock p ext s =
                     produceDone (socket_id sock) r u ?producer (flagHlsActive r s')"
          using assms True Inr h by (auto simp: transport_produce_def Let_def emit_def)
        then show ?thesis
          using that [of "flagHlsActive r s'" es] f by (simp add: flagHlsActive_def)
      next
        case (Some msg)
        then have "transport_produce sock p ext s = produceDone (socket_id sock) r u ?producer s'"
          using assms True Inr h by (auto simp: transport_produce_def Let_def emit_def)
        then show ?thesis
          using that [of s' es] f by simp
      qed
    qed
  qed
  have pi: "producerInfo (transport_produce sock p ext s) (peerKey r u) = Some ?info'"
    by (simp add: s3 p3 produceDone_def emit_def)
  have tr: "trace (transport_produce sock p ext s) =
              trace s @ ([CallProduce (transport_id tr) (tp_kind p)] @ es @
                [EmitRoomExcept (socket_id sock) r (NewProducer u (producer_id ?producer)),
                 Ack (socket_id sock) (RProduced (producer_id ?producer))])"
    by (simp add: s3 t3 produceDone_def emit_def)
  have "\<forall>x. ProducerClose x \<notin> set (added s (transport_produce sock p ext s))"
    using t3(2) by (simp add: added_trace_append [OF tr])
  moreover have "map_of (producers ?info') = (map_of (producers info))(tp_kind p \<mapsto> ?producer)"
    by (simp add: update_conv')
  moreover have "map fst (producers ?info') = map fst (producers info)"
    using assms(4) by (simp add: update_present_keys)
  ultimately show ?thesis
    using pi by simp
qed

theorem produce_overwrites_without_close_witness:
  "identity aliceSocket = Some (''r1'', ''alice'') \<and>
   map_of [(Video, videoProducer ''pA1'' ''alice'')] (tp_kind (videoOf ''alice'')) =
     Some (videoProducer ''pA1'' ''alice'') \<and>
   (\<exists>info'. producerInfo aliceAgain ''r1:alice'' = Some info' \<and>
      map_of (producers info') Video = Some (videoProducer ''pA2'' ''alice'') \<and>
      map fst (producers info') = [Video]) \<and>
   (\<forall>x. ProducerClose x \<notin> set (added aliceStreaming aliceAgain))"
proof -
  let ?info = "\<lparr>producerTransport = Some (webrtc ''tA-send''),
               producers = [(Video, videoProducer ''pA1'' ''alice'')]\<rparr>"
  have i: "identity aliceSocket = Some (''r1'', ''alice'')"
    by (simp add: identity_def truthy_def aliceSocket_def)
  have p: "producerInfo aliceStreaming (peerKey ''r1'' ''alice'') = Some ?info"
    by (simp add: aliceStreaming_eval peerKey_def)
  have t: "producerTransport ?info = Some (webrtc ''tA-send'')"
    by simp
  have m: "map_of (producers ?info) (tp_kind (videoOf ''alice'')) = Some (videoProducer ''pA1'' ''alice'')"
    by (simp add: videoOf_def)
  have x: "xp_produce (produceReplies ''pA2'' (hlsReplies ''plain2'' ''hc2'' 2)) = Inr ''pA2''"
    by (simp add: produceReplies_def)
  have r: "transport_produce aliceSocket (videoOf ''alice'')
             (produceReplies ''pA2'' (hlsReplies ''plain2'' ''hc2'' 2)) aliceStreaming = aliceAgain"
    by (simp add: aliceAgain_def)
  from produce_overwrites_without_close [OF i p t m x, unfolded r]
  obtain info' where
    a: "producerInfo aliceAgain (peerKey ''r1'' ''alice'') = Some info'"
       "map_of (producers info') =
          (map_of (producers ?info))(tp_kind (videoOf ''alice'') \<mapsto> newProducer (videoOf ''alice'') ''pA2'')"
       "map fst (producers info') = map fst (producers ?info)"
       "\<forall>x. ProducerClose x \<notin> set (added aliceStreaming aliceAgain)"
    by blast
  have "map_of (producers info') Video = Some (videoProducer ''pA2'' ''alice'')"
    by (simp add: a(2) videoOf_def newProducer_def videoProducer_def)
  moreover have "map fst (producers info') = [Video]"
    by (simp add: a(3))
  moreover have "producerInfo aliceAgain ''r1:alice'' = Some info'"
    using a(1) by (simp add: peerKey_def)
  ultimately show ?thesis
    using i m a(4) by auto
qed

text \<open>
  C3 as stated fails: alice's second video producer replaces her first in the map, and
  the trace holds no close call for the first.
\<close>

theorem previous_producer_not_closed:
  "producerInfo aliceStreaming ''r1:alice'' =
     Some \<lparr>producerTransport = Some (webrtc ''tA-send''),
           producers = [(Video, videoProducer ''pA1'' ''alice'')]\<rparr> \<and>
   producerInfo aliceAgain ''r1:alice'' =
     Some \<lparr>producerTransport = Some (webrtc ''tA-send''),
           producers = [(Video, videoProducer ''pA2'' ''alice'')]\<rparr> \<and>
   ProducerClose ''pA1'' \<notin> set (trace aliceAgain)"
  by (simp add: aliceAgain_eval aliceStreaming_eval joinTrace_def)

subsection \<open>C4\<close>

lemma consume_refused_silent:
  assumes "identity sock = Some (r, u)"
    and "xc_getRouter ext = Inr router"
    and "consumerInfo s (peerKey r u) = Some info"
    and "consumerTransport info = Some tr"
    and "\<not> xc_canConsume ext"
  shows "consume sock p ext s = s"
  using assms by (simp add: consume_def Let_def)

text \<open>
  C4.  The claim asks for an acknowledgement that carries an error.  When the engine's
  \<^verbatim>\<open>canConsume\<close> answers \<^verbatim>\<open>false\<close> the handler creates no consumer and does not fail, but it
  also returns without calling the acknowledgement: the state, effect trace included, is
  the one before the request.
\<close>

theorem consume_unknown_producer_unacknowledged:
  "bobAsksUnknown = aliceStreaming \<and>
   (\<forall>resp. Ack ''sB'' resp \<notin> set (added aliceStreaming bobAsksUnknown))"
proof -
  have "bobAsksUnknown = aliceStreaming"
    unfolding bobAsksUnknown_def
    by (rule consume_refused_silent [where r = "''r1''" and u = "''bob''"
              and tr = "webrtc ''tB-recv''"
              and info = "\<lparr>consumerTransport = Some (webrtc ''tB-recv''), consumers = []\<rparr>"])
       (simp_all add: identity_def truthy_def bobSocket_def consumeReplies_def
          aliceStreaming_eval peerKey_def)
  then show ?thesis
    by (simp add: added_def)
qed

subsection \<open>C5\<close>

text \<open>
  The state after a join that is refused because the room already exists (creator) or
  does not exist (non-creator): the error is acknowledged and the store is as before,
  but the assignments that precede the existence check have been made.
\<close>

lemma refused_join_state:
  assumes "(jp_isCreator p \<and> redis s (roomKey (jp_roomId p)) \<noteq> None) \<or>
           (\<not> jp_isCreator p \<and> redis s (roomKey (jp_roomId p)) = None)"
  shows "joinRoom sock p rtr s =
           (sock\<lparr>sock_username := Some (jp_username p), sock_roomId := Some (jp_roomId p)\<rparr>,
            s\<lparr>producerInfo := (producerInfo s)(peerKey (jp_roomId p) (jp_username p) \<mapsto> emptyProducerInfo),
              consumerInfo := (consumerInfo s)(peerKey (jp_roomId p) (jp_username p) \<mapsto> emptyConsumerInfo),
              trace := trace s @
                [SocketJoin (socket_id sock) (jp_roomId p),
                 Ack (socket_id sock)
                   (RError (if jp_isCreator p then ''Room already exists.'' else ''Room not found.''))]\<rparr>)"
  using assms by (auto simp: joinRoom_def Let_def emit_def ack_def)

lemma impostorRefused_eval:
  "impostorRefused =
     (\<lparr>socket_id = ''sM'', sock_username = Some ''alice'', sock_roomId = Some ''r1''\<rparr>,
      aliceStreaming
        \<lparr>producerInfo := [''r1:alice'' \<mapsto> emptyProducerInfo,
                          ''r1:bob'' \<mapsto> \<lparr>producerTransport = Some (webrtc ''tB-send''), producers = []\<rparr>],
         consumerInfo := [''r1:alice'' \<mapsto> emptyConsumerInfo,
                          ''r1:bob'' \<mapsto> \<lparr>consumerTransport = Some (webrtc ''tB-recv''), consumers = []\<rparr>],
         trace := trace aliceStreaming @
                  [SocketJoin ''sM'' ''r1'', Ack ''sM'' (RError ''Room already exists.'')]\<rparr>)"
proof -
  let ?p = "\<lparr>jp_username = ''alice'', jp_roomId = ''r1'', jp_isCreator = True\<rparr>"
  have h: "(jp_isCreator ?p \<and> redis aliceStreaming (roomKey (jp_roomId ?p)) \<noteq> None) \<or>
           (\<not> jp_isCreator ?p \<and> redis aliceStreaming (roomKey (jp_roomId ?p)) = None)"
    by (simp add: aliceStreaming_eval roomKey_def)
  show ?thesis
    unfolding impostorRefused_def refused_join_state [OF h]
    by (simp add: newSocket_def peerKey_def aliceStreaming_eval fun_upd_twist)
qed

text \<open>
  C5.  The claim is that a refused join leaves the session state unchanged and that peer
  records are registered only by a successful join.  The handler refuses both joins
  below with the error, but it has assigned \<^verbatim>\<open>socket.username\<close> and \<^verbatim>\<open>socket.roomId\<close>
  and has set both peer records before it looks the room up.  The refused non-creator
  join has registered records for a peer of a room that does not exist.  The refused
  creator join under alice's name has replaced alice's record, which held her producer
  and her transport, by an empty one without closing anything; the refused socket now
  passes the guard of every handler, and its \<^verbatim>\<open>end-meeting\<close> deletes the room.
\<close>

theorem failed_join_registers_peer:
  "added aliceStreaming (snd malloryRefused) =
     [SocketJoin ''sM'' ''r9'', Ack ''sM'' (RError ''Room not found.'')] \<and>
   producerInfo aliceStreaming ''r9:mallory'' = None \<and>
   producerInfo (snd malloryRefused) ''r9:mallory'' = Some emptyProducerInfo \<and>
   consumerInfo aliceStreaming ''r9:mallory'' = None \<and>
   consumerInfo (snd malloryRefused) ''r9:mallory'' = Some emptyConsumerInfo \<and>
   sock_roomId (newSocket ''sM'') = None \<and>
   sock_roomId (fst malloryRefused) = Some ''r9'' \<and>
   sock_username (fst malloryRefused) = Some ''mallory'' \<and>
   added aliceStreaming (snd impostorRefused) =
     [SocketJoin ''sM'' ''r1'', Ack ''sM'' (RError ''Room already exists.'')] \<and>
   producerInfo aliceStreaming ''r1:alice'' =
     Some \<lparr>producerTransport = Some (webrtc ''tA-send''),
           producers = [(Video, videoProducer ''pA1'' ''alice'')]\<rparr> \<and>
   producerInfo (snd impostorRefused) ''r1:alice'' = Some emptyProducerInfo \<and>
   sock_roomId (fst impostorRefused) = Some ''r1'' \<and>
   sock_username (fst impostorRefused) = Some ''alice'' \<and>
   redis (snd impostorRefused) (roomKey ''r1'') = Some \<lparr>peers = [''alice'', ''bob'']\<rparr> \<and>
   redis endedByImpostor (roomKey ''r1'') = None"
proof -
  have m: "added aliceStreaming (snd malloryRefused) =
       [SocketJoin ''sM'' ''r9'', Ack ''sM'' (RError ''Room not found.'')] \<and>
     producerInfo aliceStreaming ''r9:mallory'' = None \<and>
     producerInfo (snd malloryRefused) ''r9:mallory'' = Some emptyProducerInfo \<and>
     consumerInfo aliceStreaming ''r9:mallory'' = None \<and>
     consumerInfo (snd malloryRefused) ''r9:mallory'' = Some emptyConsumerInfo \<and>
     sock_roomId (newSocket ''sM'') = None \<and>
     sock_roomId (fst malloryRefused) = Some ''r9'' \<and>
   sock_username (fst malloryRefused) = Some ''mallory''"
    by (simp add: malloryRefused_def joinRoom_def Let_def emit_def ack_def added_def
          aliceStreaming_eval roomKey_def peerKey_def newSocket_def identity_def truthy_def)
  have i: "added aliceStreaming (snd impostorRefused) =
       [SocketJoin ''sM'' ''r1'', Ack ''sM'' (RError ''Room already exists.'')] \<and>
     producerInfo aliceStreaming ''r1:alice'' =
       Some \<lparr>producerTransport = Some (webrtc ''tA-send''),
             producers = [(Video, videoProducer ''pA1'' ''alice'')]\<rparr> \<and>
     producerInfo (snd impostorRefused) ''r1:alice'' = Some emptyProducerInfo \<and>
     sock_roomId (fst impostorRefused) = Some ''r1'' \<and>
   sock_username (fst impostorRefused) = Some ''alice'' \<and>
     redis (snd impostorRefused) (roomKey ''r1'') = Some \<lparr>peers = [''alice'', ''bob'']\<rparr>"
    by (simp add: impostorRefused_eval added_def aliceStreaming_eval identity_def truthy_def
          roomKey_def)
  have e: "redis endedByImpostor (roomKey ''r1'') = None"
    by (simp add: endedByImpostor_def impostorRefused_eval aliceStreaming_eval end_meeting_def
          truthy_def roomKey_def deleteRoom_def unflagHls_def stopHlsRecording_def emit_def
          Let_def cleanupPeer_frame split: prod.splits option.splits)
  from m i e show ?thesis by simp
qed

subsection \<open>C2\<close>











subsection \<open>C1\<close>

text \<open>
  Run with no other handler in between, the suspended handler and the handler
  \<^const>\<open>transport_produce\<close> are the same function: four resumptions always reach the
  end, with the same state.
\<close>

lemma produce_sequential:
  "produceNext ext (produceNext ext (produceNext ext (produceNext ext (produceStart sock p s)))) =
     (None, transport_produce sock p ext s)"
  by (simp add: produceNext_def produceStart_def transport_produce_def startHlsRecording_def
        Let_def emit_def ack_def
        split: option.splits sum.splits prod.splits)

lemmas race_defs = aliceReplies_def bobReplies_def raceSchedule_def interleave_def turnStep_def
  produceNext_def produceStart_def

lemma bothAsked_eval:
  "bothAsked =
     \<lparr>left_run = Some (AwaitProduce aliceCtx (videoOf ''alice'')),
      right_run = Some (AwaitProduce bobCtx (videoOf ''bob'')),
      shared = bothReady\<lparr>trace := joinTrace @ [CallProduce ''tA-send'' Video, CallProduce ''tB-send'' Video]\<rparr>\<rparr>"
  by (simp add: bothAsked_def race_defs bothReady_eval aliceCtx_def bobCtx_def fixture_defs model_defs Let_def)

lemma raced_eval:
  "raced =
     \<lparr>left_run = None, right_run = None,
      shared =
        \<lparr>producerInfo = [''r1:alice'' \<mapsto> \<lparr>producerTransport = Some (webrtc ''tA-send''),
                                           producers = [(Video, videoProducer ''pA1'' ''alice'')]\<rparr>,
                         ''r1:bob'' \<mapsto> \<lparr>producerTransport = Some (webrtc ''tB-send''),
                                         producers = [(Video, videoProducer ''pB1'' ''bob'')]\<rparr>],
         consumerInfo = consumerInfo bothReady,
         hlsActiveRooms = {''r1''},
         hlsSessions = [''r1'' \<mapsto> \<lparr>hls_ffmpeg = Some 2, hls_plainTransport = Some (plain ''plain2''),
                                    hls_consumer = Some (videoConsumer ''hc2'')\<rparr>],
         injectSessions = Map.empty,
         redis = [''room:r1'' \<mapsto> \<lparr>peers = [''alice'', ''bob'']\<rparr>],
         trace = joinTrace @
           [CallProduce ''tA-send'' Video, CallProduce ''tB-send'' Video,
            CallCreatePlainTransport ''router-r1'', CallCreatePlainTransport ''router-r1'',
            CallConsume ''plain1'' ''pA1'' True, Mkdir ''r1'', WriteFile ''r1'', Spawn 1 ''r1'',
            ConsumerResume ''hc1'',
            EmitRoomExcept ''sA'' ''r1'' (NewProducer ''alice'' ''pA1''), Ack ''sA'' (RProduced ''pA1''),
            CallConsume ''plain2'' ''pB1'' True, Mkdir ''r1'', WriteFile ''r1'', Spawn 2 ''r1'',
            ConsumerResume ''hc2'',
            EmitRoomExcept ''sB'' ''r1'' (NewProducer ''bob'' ''pB1''), Ack ''sB'' (RProduced ''pB1'')]\<rparr>\<rparr>"
  by (simp add: raced_def bothAsked_eval race_defs bothReady_eval aliceCtx_def bobCtx_def
        fixture_defs model_defs Let_def fun_upd_twist)

text \<open>
  C1.  The claim is that a room never has more than one active playback pipeline.  In
  the interleaved run both handlers read \<^verbatim>\<open>hlsActiveRooms\<close> before either has added the
  room, both find no session record in \<^verbatim>\<open>startHlsRecording\<close>, and both spawn.  When
  both have returned, two subprocesses run for room \<open>r1\<close>; the session record holds the
  second only, so the first is out of reach: the end of the meeting kills the second and
  leaves the first running.
\<close>

theorem concurrent_video_producers_spawn_twice:
  "left_run raced = None \<and> right_run raced = None \<and>
   liveFfmpeg ''r1'' (trace (shared raced)) = [1, 2] \<and>
   hlsSessions (shared raced) ''r1'' =
     Some \<lparr>hls_ffmpeg = Some 2, hls_plainTransport = Some (plain ''plain2''),
           hls_consumer = Some (videoConsumer ''hc2'')\<rparr> \<and>
   liveFfmpeg ''r1'' (trace (end_meeting aliceSocket (Inr router1) (shared raced))) = [1]"
proof -
  have a: "left_run raced = None \<and> right_run raced = None \<and>
     liveFfmpeg ''r1'' (trace (shared raced)) = [1, 2] \<and>
     hlsSessions (shared raced) ''r1'' =
       Some \<lparr>hls_ffmpeg = Some 2, hls_plainTransport = Some (plain ''plain2''),
           hls_consumer = Some (videoConsumer ''hc2'')\<rparr>"
    by (simp add: raced_eval joinTrace_def)
  have "trace (end_meeting aliceSocket (Inr router1) (shared raced)) =
          trace (shared raced) @
          [ProducerClose ''pA1'', TransportClose ''tA-send'', TransportClose ''tA-recv'',
           ProducerClose ''pB1'', TransportClose ''tB-send'', TransportClose ''tB-recv'',
           RouterClose ''router-r1'', Kill 2, ConsumerClose ''hc2'',
           EmitRoom ''r1'' MeetingEnded, TransportClose ''plain2'']"
    by (simp add: raced_eval bothReady_eval end_meeting_def
        cleanupPeer_def cleanupProducers_def cleanupConsumers_def transportCloseEvents_def
        deleteRoom_def unflagHls_def fixture_defs model_defs Let_def)
  then have b: "liveFfmpeg ''r1'' (trace (end_meeting aliceSocket (Inr router1) (shared raced))) = [1]"
    by (simp add: raced_eval joinTrace_def)
  from a b show ?thesis by simp
qed

subsection \<open>The gate and the release, one handler at a time\<close>

text \<open>
  X1.  Run from its first line to its last with no other handler in between, a
  \<^verbatim>\<open>transport-produce\<close> for a room that is flagged in \<^verbatim>\<open>hlsActiveRooms\<close> starts nothing:
  it spawns no subprocess and leaves the session records and the flags as they were.
\<close>

theorem flagged_room_starts_no_pipeline:
  assumes "identity sock = Some (r, u)" and "r \<in> hlsActiveRooms s"
  shows "hlsSessions (transport_produce sock p ext s) = hlsSessions s \<and>
         hlsActiveRooms (transport_produce sock p ext s) = hlsActiveRooms s \<and>
         (\<forall>f x. Spawn f x \<notin> set (added s (transport_produce sock p ext s)))"
  using assms
  by (auto simp: transport_produce_def Let_def emit_def ack_def produceDone_def added_def
           split: option.splits sum.splits)

theorem flagged_room_starts_no_pipeline_witness:
  "identity aliceSocket = Some (''r1'', ''alice'') \<and> ''r1'' \<in> hlsActiveRooms aliceStreaming \<and>
   hlsSessions aliceAgain = hlsSessions aliceStreaming \<and>
   (\<forall>f x. Spawn f x \<notin> set (added aliceStreaming aliceAgain))"
proof -
  have i: "identity aliceSocket = Some (''r1'', ''alice'')"
    by (simp add: identity_def truthy_def aliceSocket_def)
  have f: "''r1'' \<in> hlsActiveRooms aliceStreaming"
    by (simp add: aliceStreaming_eval)
  from flagged_room_starts_no_pipeline [OF i f] i f show ?thesis
    by (simp add: aliceAgain_def)
qed

text \<open>
  X2.  When a session is recorded for the room, \<^verbatim>\<open>startHlsRecording\<close> first kills its
  subprocess, closes its consumer and its relay transport and deletes the record; only
  then does it ask the router for a new relay transport.
\<close>

theorem previous_session_released_first:
  assumes "hlsSessions s r = Some prev"
  shows "hlsSessions (hlsBegin r router s) r = None \<and>
         (\<exists>post. added s (snd (startHlsRecording r producer router ext s)) =
                    releaseHlsSession prev @ CallCreatePlainTransport (router_id router) # post)"
proof -
  have t: "trace (hlsBegin r router s) =
             trace s @ releaseHlsSession prev @ [CallCreatePlainTransport (router_id router)]"
    using assms by (simp add: hlsBegin_def emit_def)
  have "\<exists>post. trace (snd (startHlsRecording r producer router ext s)) =
           trace s @ releaseHlsSession prev @ CallCreatePlainTransport (router_id router) # post"
    by (auto simp: startHlsRecording_def Let_def t hlsConsume_def hlsSpawn_def hlsStore_def emit_def
             split: sum.splits option.splits)
  then obtain post where
    "trace (snd (startHlsRecording r producer router ext s)) =
       trace s @ releaseHlsSession prev @ CallCreatePlainTransport (router_id router) # post"
    by blast
  then have "added s (snd (startHlsRecording r producer router ext s)) =
       releaseHlsSession prev @ CallCreatePlainTransport (router_id router) # post"
    by (rule added_trace_append)
  moreover have "hlsSessions (hlsBegin r router s) r = None"
    using assms by (simp add: hlsBegin_def emit_def)
  ultimately show ?thesis by blast
qed

theorem previous_session_released_first_witness:
  "hlsSessions aliceStreaming ''r1'' =
     Some \<lparr>hls_ffmpeg = Some 1, hls_plainTransport = Some (plain ''plain1''),
           hls_consumer = Some (videoConsumer ''hc1'')\<rparr> \<and>
   (\<exists>post. added aliceStreaming (snd bothStreaming) =
      [Kill 1, ConsumerClose ''hc1'', TransportClose ''plain1'']
      @ CallCreatePlainTransport ''router-r1'' # post)"
proof -
  have h: "hlsSessions aliceStreaming ''r1'' =
     Some \<lparr>hls_ffmpeg = Some 1, hls_plainTransport = Some (plain ''plain1''),
           hls_consumer = Some (videoConsumer ''hc1'')\<rparr>"
    by (simp add: aliceStreaming_eval)
  have rel: "releaseHlsSession \<lparr>hls_ffmpeg = Some 1, hls_plainTransport = Some (plain ''plain1''),
           hls_consumer = Some (videoConsumer ''hc1'')\<rparr> =
           [Kill 1, ConsumerClose ''hc1'', TransportClose ''plain1'']"
    by (simp add: releaseHlsSession_def stopIssued_def stopPending_def plain_def videoConsumer_def)
  from previous_session_released_first [OF h, of router1 "videoProducer ''pB1'' ''bob''"
         "hlsReplies ''plain2'' ''hc2'' 2"] h rel
  show ?thesis
    by (simp add: bothStreaming_def router1_def)
qed

end
